(* ===== verification/Prelude.thy ===== *)
theory Prelude
  imports Complex_Main "HOL-Library.Word"
begin

text \<open>
  Shared vocabulary of the development: the type names of the model, the
  collections of facts the component theories fill, and generic lemmas on
  lists and counting that the ECDF and rating proofs share.
  Doubles of the C++ code are modelled as \<^typ>\<open>real\<close>: the development
  reasons about the exact arithmetic the code approximates, and NaN or
  infinities are treated as failures the code must avoid (division by a
  zero range is stated as a safety property of its own).
\<close>

type_synonym sample = "real list"
  \<comment> \<open>a \<open>QVector<double>\<close> of raw attribute values\<close>

type_synonym u32 = "32 word"
  \<comment> \<open>\<open>VIRTADDR\<close> / \<open>quint32\<close>\<close>

type_synonym s16 = "16 word"
  \<comment> \<open>\<open>qint16\<close>, read with \<^term>\<open>sint\<close>\<close>

named_theorems rating_defs
  \<comment> \<open>the per-strategy rating definitions, unfolded together\<close>

named_theorems mono_intros
  \<comment> \<open>monotonicity facts of the rating pipeline\<close>

subsection \<open>Counting elements of a list\<close>

lemma length_filter_nth_prefix:
  assumes "k \<le> length xs"
    and "\<And>i. i < k \<Longrightarrow> p (xs ! i)"
    and "\<And>i. k \<le> i \<Longrightarrow> i < length xs \<Longrightarrow> \<not> p (xs ! i)"
  shows "length (filter p xs) = k"
proof -
  have xs: "xs = take k xs @ drop k xs" by simp
  have t: "filter p (take k xs) = take k xs"
    using assms(2) by (auto simp: filter_id_conv in_set_conv_nth)
  have d: "filter p (drop k xs) = []"
    using assms(1,3) by (auto simp: filter_empty_conv in_set_conv_nth)
  have "length (filter p xs) = length (filter p (take k xs @ drop k xs))"
    by simp
  also have "\<dots> = k" using t d assms(1) by (simp del: append_take_drop_id)
  finally show ?thesis .
qed

lemma length_filter_mono_pred:
  "(\<And>x. x \<in> set xs \<Longrightarrow> p x \<Longrightarrow> q x) \<Longrightarrow> length (filter p xs) \<le> length (filter q xs)"
  by (induction xs) auto

lemma length_filter_le_length: "length (filter p xs) \<le> length xs"
  by (rule length_filter_le)

lemma sort_Nil_iff: "sort v = [] \<longleftrightarrow> v = []"
  by (metis length_0_conv length_sort)

lemma sorted_hd_le:
  "sorted xs \<Longrightarrow> x \<in> set xs \<Longrightarrow> hd xs \<le> x"
  by (cases xs) auto

lemma sorted_le_last:
  "sorted xs \<Longrightarrow> x \<in> set xs \<Longrightarrow> x \<le> last xs"
  by (induction xs) (auto simp: last_in_set)

lemma sorted_nth_prefix_closed:
  fixes xs :: "'a::linorder list"
  assumes "sorted xs" "i \<le> j" "j < length xs"
  shows "xs ! i \<le> xs ! j"
  using assms by (simp add: sorted_nth_mono)

subsection \<open>Clamping\<close>

lemma clamp_mono:
  fixes a b lo hi :: real
  shows "a \<le> b \<Longrightarrow> max lo (min hi a) \<le> max lo (min hi b)"
  by linarith

lemma real_div_mono_num:
  fixes a b c :: real
  shows "a \<le> b \<Longrightarrow> 0 \<le> c \<Longrightarrow> a / c \<le> b / c"
  by (simp add: divide_right_mono)

end
