(* ===== verification/ECDF.thy ===== *)
theory ECDF
  imports Prelude
begin

text \<open>
  The empirical CDF evaluator (class \<open>ECDF\<close>, header \<open>ecdf.h\<close>, which
  \<open>rolestats.h\<close> includes but which is not part of the sources here; it is
  modelled from section 4.1 of the specification).  An ECDF holds one
  sorted, non-empty sample; \<open>fminus x\<close> is the share of the sample below
  \<open>x\<close> and \<open>fplus x\<close> the share at most \<open>x\<close>, each found by a binary
  search (\<open>std::lower_bound\<close> / \<open>std::upper_bound\<close>) over the sorted data.
  The theory proves the binary search equal to counting, the bounds and
  monotonicity of both queries, their order, and their values at the
  sample's ends.
\<close>

record ecdf =
  sorted_data :: sample

definition ecdf_new :: "sample \<Rightarrow> ecdf option" where
  "ecdf_new xs = (if xs = [] then None else Some \<lparr>sorted_data = xs\<rparr>)"

definition ecdf_wf :: "ecdf \<Rightarrow> bool" where
  "ecdf_wf e \<longleftrightarrow> sorted (sorted_data e) \<and> sorted_data e \<noteq> []"

subsection \<open>Binary search\<close>

text \<open>
  \<open>bsearch_it p xs lo hi\<close> runs the half-open binary search of the
  standard library and returns the first index in \<open>[lo, hi)\<close> whose
  element fails \<open>p\<close>, together with the number of iterations of its
  loop, the cost of one query (section 5 of the specification promises
  \<open>O(log n)\<close> per query).  \<open>bsearch\<close> is its result and \<open>T_bsearch\<close>
  its iteration count, so that both are facts about the same search.
  With \<open>p = (\<lambda>y. y < x)\<close> it is \<open>lower_bound\<close>, with
  \<open>p = (\<lambda>y. y \<le> x)\<close> it is \<open>upper_bound\<close>.
\<close>

function bsearch_it :: "(real \<Rightarrow> bool) \<Rightarrow> sample \<Rightarrow> nat \<Rightarrow> nat \<Rightarrow> nat \<times> nat" where
  "bsearch_it p xs lo hi =
     (if lo < hi then
        (let mid = (lo + hi) div 2 in
         apsnd Suc (if p (xs ! mid) then bsearch_it p xs (Suc mid) hi else bsearch_it p xs lo mid))
      else (lo, 0))"
  by pat_completeness auto
termination
  by (relation "measure (\<lambda>(p, xs, lo, hi). hi - lo)") auto

declare bsearch_it.simps [simp del]

definition bsearch :: "(real \<Rightarrow> bool) \<Rightarrow> sample \<Rightarrow> nat \<Rightarrow> nat \<Rightarrow> nat" where
  "bsearch p xs lo hi = fst (bsearch_it p xs lo hi)"

definition T_bsearch :: "(real \<Rightarrow> bool) \<Rightarrow> sample \<Rightarrow> nat \<Rightarrow> nat \<Rightarrow> nat" where
  "T_bsearch p xs lo hi = snd (bsearch_it p xs lo hi)"

definition lower_bound :: "sample \<Rightarrow> real \<Rightarrow> nat" where
  "lower_bound xs x = bsearch (\<lambda>y. y < x) xs 0 (length xs)"

definition upper_bound :: "sample \<Rightarrow> real \<Rightarrow> nat" where
  "upper_bound xs x = bsearch (\<lambda>y. y \<le> x) xs 0 (length xs)"

definition fminus :: "ecdf \<Rightarrow> real \<Rightarrow> real" where
  "fminus e x = real (lower_bound (sorted_data e) x) / real (length (sorted_data e))"

definition fplus :: "ecdf \<Rightarrow> real \<Rightarrow> real" where
  "fplus e x = real (upper_bound (sorted_data e) x) / real (length (sorted_data e))"

text \<open>The reference definitions: the counts the searches compute.\<close>

definition count_less :: "sample \<Rightarrow> real \<Rightarrow> nat" where
  "count_less xs x = length (filter (\<lambda>y. y < x) xs)"

definition count_le :: "sample \<Rightarrow> real \<Rightarrow> nat" where
  "count_le xs x = length (filter (\<lambda>y. y \<le> x) xs)"

subsection \<open>The search computes the count\<close>

definition prefix_closed :: "(real \<Rightarrow> bool) \<Rightarrow> sample \<Rightarrow> bool" where
  "prefix_closed p xs \<longleftrightarrow> (\<forall>i j. i \<le> j \<longrightarrow> j < length xs \<longrightarrow> p (xs ! j) \<longrightarrow> p (xs ! i))"

text \<open>The recursion of the search and of its cost, one iteration at a time.\<close>

lemma bsearch_eq:
  "bsearch p xs lo hi =
     (if lo < hi then
        (let mid = (lo + hi) div 2 in
         if p (xs ! mid) then bsearch p xs (Suc mid) hi else bsearch p xs lo mid)
      else lo)"
  by (simp add: bsearch_def bsearch_it.simps [of p xs lo hi] Let_def)

lemma T_bsearch_eq:
  "T_bsearch p xs lo hi =
     (if lo < hi then
        (let mid = (lo + hi) div 2 in
         Suc (if p (xs ! mid) then T_bsearch p xs (Suc mid) hi else T_bsearch p xs lo mid))
      else 0)"
  by (simp add: T_bsearch_def bsearch_it.simps [of p xs lo hi] Let_def)

lemma bsearch_inv:
  assumes "prefix_closed p xs" "lo \<le> hi" "hi \<le> length xs"
    and "\<forall>i<lo. p (xs ! i)"
    and "\<forall>i. hi \<le> i \<longrightarrow> i < length xs \<longrightarrow> \<not> p (xs ! i)"
  shows "bsearch p xs lo hi = length (filter p xs)"
  using assms
proof (induction p xs lo hi rule: bsearch_it.induct)
  case (1 p xs lo hi)
  show ?case
  proof (cases "lo < hi")
    case False
    then have "lo = hi" using "1.prems"(2) by simp
    then have "length (filter p xs) = lo"
      using "1.prems" by (intro length_filter_nth_prefix) auto
    with False show ?thesis by (simp add: bsearch_eq [of p xs lo hi])
  next
    case True
    define mid where "mid = (lo + hi) div 2"
    have mid: "lo \<le> mid" "mid < hi" using True by (auto simp: mid_def)
    show ?thesis
    proof (cases "p (xs ! mid)")
      case pm: True
      have "\<forall>i<Suc mid. p (xs ! i)"
        using pm mid "1.prems"(1,3,4) unfolding prefix_closed_def
        by (metis less_Suc_eq_le order.strict_trans2)
      then have "bsearch p xs (Suc mid) hi = length (filter p xs)"
        using "1.IH"(1) [of mid] True mid pm "1.prems" by (simp add: mid_def)
      with True pm show ?thesis
        by (simp add: bsearch_eq [of p xs lo hi] Let_def mid_def)
    next
      case pm: False
      have "\<forall>i. mid \<le> i \<longrightarrow> i < length xs \<longrightarrow> \<not> p (xs ! i)"
        using pm "1.prems"(1) unfolding prefix_closed_def by blast
      then have "bsearch p xs lo mid = length (filter p xs)"
        using "1.IH"(2) [of mid] True mid pm "1.prems" by (simp add: mid_def)
      with True pm show ?thesis
        by (simp add: bsearch_eq [of p xs lo hi] Let_def mid_def)
    qed
  qed
qed

lemma bsearch_full:
  "prefix_closed p xs \<Longrightarrow> bsearch p xs 0 (length xs) = length (filter p xs)"
  by (rule bsearch_inv) auto

text \<open>Each iteration halves the search range: \<open>k\<close> iterations suffice below \<open>2 ^ k\<close>.\<close>

lemma T_bsearch_log:
  "hi - lo < 2 ^ k \<Longrightarrow> T_bsearch p xs lo hi \<le> k"
proof (induction p xs lo hi arbitrary: k rule: bsearch_it.induct)
  case (1 p xs lo hi)
  show ?case
  proof (cases "lo < hi")
    case False
    then show ?thesis by (simp add: T_bsearch_eq)
  next
    case True
    let ?mid = "(lo + hi) div 2"
    obtain j where k: "k = Suc j" using True "1.prems" by (cases k) auto
    have "hi - Suc ?mid < 2 ^ j" "?mid - lo < 2 ^ j" using "1.prems" True k by auto
    then have "(if p (xs ! ?mid) then T_bsearch p xs (Suc ?mid) hi else T_bsearch p xs lo ?mid) \<le> j"
      using "1.IH" True by auto
    then show ?thesis using True k by (simp add: T_bsearch_eq [of p xs lo hi] Let_def)
  qed
qed

text \<open>
  Each query runs the search it answers with: the search that computes
  \<open>lower_bound\<close> (or \<open>upper_bound\<close>) stops within \<open>k\<close> iterations
  on fewer than \<open>2 ^ k\<close> values.
\<close>

lemma queries_log:
  assumes "length xs < 2 ^ k"
  shows "(\<exists>n. bsearch_it (\<lambda>y. y < x) xs 0 (length xs) = (lower_bound xs x, n) \<and> n \<le> k) \<and>
         (\<exists>n. bsearch_it (\<lambda>y. y \<le> x) xs 0 (length xs) = (upper_bound xs x, n) \<and> n \<le> k)"
proof -
  have "T_bsearch (\<lambda>y. y < x) xs 0 (length xs) \<le> k" "T_bsearch (\<lambda>y. y \<le> x) xs 0 (length xs) \<le> k"
    using assms by (simp_all add: T_bsearch_log)
  then show ?thesis
    by (simp add: lower_bound_def upper_bound_def bsearch_def T_bsearch_def prod_eq_iff)
qed

lemma prefix_closed_less: "sorted xs \<Longrightarrow> prefix_closed (\<lambda>y. y < x) xs"
  unfolding prefix_closed_def
  by (meson order.strict_trans1 sorted_nth_prefix_closed)

lemma prefix_closed_le: "sorted xs \<Longrightarrow> prefix_closed (\<lambda>y. y \<le> x) xs"
  unfolding prefix_closed_def
  by (meson order.trans sorted_nth_prefix_closed)

subsection \<open>Properties of the queries\<close>

text \<open>The binary searches compute the counts of the reference definition.\<close>

lemma lower_bound_eq_count:
  "sorted xs \<Longrightarrow> lower_bound xs x = count_less xs x"
  by (simp add: lower_bound_def count_less_def bsearch_full prefix_closed_less)

lemma upper_bound_eq_count:
  "sorted xs \<Longrightarrow> upper_bound xs x = count_le xs x"
  by (simp add: upper_bound_def count_le_def bsearch_full prefix_closed_le)

lemma fminus_count:
  "ecdf_wf e \<Longrightarrow> fminus e x = real (count_less (sorted_data e) x) / real (length (sorted_data e))"
  by (simp add: fminus_def ecdf_wf_def lower_bound_eq_count)

lemma fplus_count:
  "ecdf_wf e \<Longrightarrow> fplus e x = real (count_le (sorted_data e) x) / real (length (sorted_data e))"
  by (simp add: fplus_def ecdf_wf_def upper_bound_eq_count)

lemmas ecdf_counts = fminus_count fplus_count

lemma count_less_le_count_le: "count_less xs x \<le> count_le xs x"
  unfolding count_less_def count_le_def by (rule length_filter_mono_pred) simp

lemma count_le_le_length: "count_le xs x \<le> length xs"
  by (simp add: count_le_def)

lemma count_less_mono: "x \<le> y \<Longrightarrow> count_less xs x \<le> count_less xs y"
  unfolding count_less_def by (rule length_filter_mono_pred) simp

lemma count_le_mono: "x \<le> y \<Longrightarrow> count_le xs x \<le> count_le xs y"
  unfolding count_le_def by (rule length_filter_mono_pred) simp

lemma count_less_hd: "sorted xs \<Longrightarrow> count_less xs (hd xs) = 0"
  by (auto simp: count_less_def filter_empty_conv dest: sorted_hd_le)

lemma count_le_last: "sorted xs \<Longrightarrow> count_le xs (last xs) = length xs"
proof -
  assume "sorted xs"
  then have "filter (\<lambda>y. y \<le> last xs) xs = xs"
    by (intro filter_True) (simp add: sorted_le_last)
  then show ?thesis by (simp add: count_le_def)
qed

lemma ecdf_len_pos: "ecdf_wf e \<Longrightarrow> 0 < real (length (sorted_data e))"
  by (simp add: ecdf_wf_def)

lemma ecdf_count_div_le:
  assumes "ecdf_wf e" "k \<le> length (sorted_data e)"
  shows "real k / real (length (sorted_data e)) \<le> 1"
  using assms by (simp add: ecdf_wf_def divide_le_eq_1)

text \<open>
  Both queries are shares of the sample, \<open>fminus\<close> never exceeds
  \<open>fplus\<close>, and both are monotone in the queried value.
\<close>

lemma ecdf_bounds_order:
  assumes "ecdf_wf e"
  shows "0 \<le> fminus e x \<and> fminus e x \<le> fplus e x \<and> fplus e x \<le> 1"
proof -
  let ?n = "real (length (sorted_data e))"
  have "0 \<le> fminus e x" by (simp add: fminus_def)
  moreover have "fminus e x \<le> fplus e x"
    using assms count_less_le_count_le [of "sorted_data e" x]
    by (simp add: ecdf_counts divide_right_mono)
  moreover have "fplus e x \<le> 1"
    using assms count_le_le_length by (simp add: fplus_count ecdf_count_div_le)
  ultimately show ?thesis by blast
qed

lemma fminus_mono [mono_intros]:
  "ecdf_wf e \<Longrightarrow> x \<le> y \<Longrightarrow> fminus e x \<le> fminus e y"
  by (simp add: fminus_count divide_right_mono count_less_mono)

lemma fplus_mono [mono_intros]:
  "ecdf_wf e \<Longrightarrow> x \<le> y \<Longrightarrow> fplus e x \<le> fplus e y"
  by (simp add: fplus_count divide_right_mono count_le_mono)

lemma fminus_nonneg: "0 \<le> fminus e x"
  by (simp add: fminus_def)

lemma fplus_le_one: "ecdf_wf e \<Longrightarrow> fplus e x \<le> 1"
  using count_le_le_length by (simp add: fplus_count ecdf_count_div_le)

lemma fminus_le_fplus: "ecdf_wf e \<Longrightarrow> fminus e x \<le> fplus e x"
  using count_less_le_count_le by (simp add: ecdf_counts divide_right_mono)

text \<open>At the smallest sample value \<open>fminus\<close> is 0, at the largest \<open>fplus\<close> is 1.\<close>

lemma ecdf_ends:
  assumes "ecdf_wf e"
  shows "fminus e (hd (sorted_data e)) = 0 \<and> fplus e (last (sorted_data e)) = 1"
  using assms count_less_hd count_le_last
  by (simp add: ecdf_counts ecdf_wf_def)

text \<open>The jump of the step function at \<open>x\<close> is the share of the sample equal to \<open>x\<close>.\<close>

lemma count_le_split: "count_le xs x = count_less xs x + length (filter (\<lambda>y. y = x) xs)"
  unfolding count_le_def count_less_def
  by (induction xs) auto

lemma ecdf_jump:
  "ecdf_wf e \<Longrightarrow> fplus e x - fminus e x
     = real (length (filter (\<lambda>y. y = x) (sorted_data e))) / real (length (sorted_data e))"
  by (simp add: ecdf_counts count_le_split add_divide_distrib)

end
