(* ===== verification/RoleStats.thy ===== *)
theory RoleStats
  imports ECDF
begin

text \<open>
  The role rating engine, class \<open>RoleStats\<close> of \<open>src/inc/rolestats.h\<close>.
  The header is part of the sources: the transform enumeration, the
  \<open>transform_stats\<close> struct and the engine's fields are translated from
  it.  The method bodies (\<open>rolestats.cpp\<close>) are not part of the sources;
  they are modelled from section 4.2 of the specification, with the
  header's comments deciding where the two differ.  The engine is a record
  threaded through its private methods: \<open>init_list\<close> builds the two ECDFs
  and the derived scalars, \<open>configure_transformations\<close> tries the candidate
  strategies in a fixed order (each try through \<open>load_transformations\<close>,
  which records its statistics) unless the caller pinned one,
  \<open>calculate_factor_value\<close> sets the factor for values below the median,
  and \<open>get_rating\<close> rates a value.  This theory holds the definitions, the
  invariant and the lemmas on each step; the properties of the engine as a
  whole are in \<open>Engine\<close>.
\<close>

section \<open>Data: the header's types\<close>

datatype transform_type =
    TT_UNKNOWN
  | TT_ECDF_RANK_TRY
  | TT_ECDF_RANK_UPPER
  | TT_ECDF_RANK_ALL
  | TT_MULTI_UPPER
  | TT_MULTI_ALL
  | TT_MIN_MAX_UPPER
  | TT_MIN_MAX_ALL

record transform_stats =
  average :: real
  median :: real
  ts_min :: real
  ts_max :: real

record role_stats =
  m_raws :: ecdf
  m_upper :: ecdf
  m_ecdf_median :: real
  m_raw_median :: real
  m_sum_over_median :: real
  m_sum_upper :: real
  m_factor :: real
  m_upper_minmax_diff :: real
  m_upper_raw_min :: real
  m_transform_one_percent :: real
  m_transform_type :: transform_type
  m_transformations :: "transform_stats list"

section \<open>Helpers\<close>

text \<open>\<open>find_median\<close>: the order-statistic median of a copy of the vector.\<close>

definition find_median :: "sample \<Rightarrow> real option" where
  "find_median v =
     (let s = sort v; n = length s in
      if n = 0 then None
      else Some (if even n then (s ! (n div 2 - 1) + s ! (n div 2)) / 2 else s ! (n div 2)))"

text \<open>The smoothed rank \<open>((fplus(x) + fminus(x)) / 4.0) + 0.5\<close>.\<close>

definition favg :: "ecdf \<Rightarrow> real \<Rightarrow> real" where
  "favg e x = (fplus e x + fminus e x) / 4 + 1 / 2"

text \<open>\<open>range_transform\<close>: 0-50 between \<open>min\<close> and \<open>mid\<close>, 50-100 between \<open>mid\<close> and \<open>max\<close>.\<close>

definition range_transform :: "real \<Rightarrow> real \<Rightarrow> real \<Rightarrow> real \<Rightarrow> real" where
  "range_transform val lo mid hi =
     (if val < mid then 50 * (val - lo) / (mid - lo)
      else 50 + 50 * (val - mid) / (hi - mid))"

definition clamp_rating :: "real \<Rightarrow> real" where
  "clamp_rating x = max 0 (min 100 x)"

fun is_upper :: "transform_type \<Rightarrow> bool" where
  "is_upper TT_ECDF_RANK_UPPER = True"
| "is_upper TT_MULTI_UPPER = True"
| "is_upper TT_MIN_MAX_UPPER = True"
| "is_upper _ = False"

section \<open>Statistics of a candidate list\<close>

definition list_stats :: "sample \<Rightarrow> transform_stats option" where
  "list_stats xs =
     (case find_median xs of
        None \<Rightarrow> None
      | Some m \<Rightarrow>
          (let s = sort xs in
           Some \<lparr>average = sum_list xs / real (length xs), median = m,
                 ts_min = hd s, ts_max = last s\<rparr>))"

text \<open>\<open>load_list_stats(list, save)\<close>: the statistics, appended to the history when \<open>save\<close>.\<close>

definition load_list_stats :: "role_stats \<Rightarrow> sample \<Rightarrow> bool \<Rightarrow> transform_stats option \<times> role_stats" where
  "load_list_stats s xs save =
     (let ts = list_stats xs in
      (ts, (case ts of
              Some t \<Rightarrow> if save then s\<lparr>m_transformations := m_transformations s @ [t]\<rparr> else s
            | None \<Rightarrow> s)))"

text \<open>
  \<open>transform_valid(ts, mid_is_avg)\<close>: the range is not flat, and with
  \<open>mid_is_avg\<close> the median lies strictly inside the range and within a
  quarter of the range of the average.
\<close>

definition transform_valid :: "transform_stats \<Rightarrow> bool \<Rightarrow> bool" where
  "transform_valid ts mid_is_avg \<longleftrightarrow>
     ts_min ts < ts_max ts \<and>
     (mid_is_avg \<longrightarrow>
        ts_min ts < median ts \<and> median ts < ts_max ts \<and>
        \<bar>median ts - average ts\<bar> \<le> (ts_max ts - ts_min ts) / 4)"

section \<open>The transforms\<close>

definition rank_value :: "ecdf \<Rightarrow> real \<Rightarrow> real" where
  "rank_value e v = 100 * favg e v"

definition minmax_upper_value :: "role_stats \<Rightarrow> real \<Rightarrow> real" where
  "minmax_upper_value s v = 50 + (v - m_upper_raw_min s) / m_transform_one_percent s"

definition minmax_all_value :: "role_stats \<Rightarrow> real \<Rightarrow> real" where
  "minmax_all_value s v =
     range_transform v (hd (sorted_data (m_raws s))) (m_raw_median s) (last (sorted_data (m_raws s)))"

fun transform_value :: "role_stats \<Rightarrow> transform_type \<Rightarrow> real \<Rightarrow> real" where
  "transform_value s TT_ECDF_RANK_UPPER v = rank_value (m_upper s) v"
| "transform_value s TT_ECDF_RANK_ALL v = rank_value (m_raws s) v"
| "transform_value s TT_MULTI_UPPER v = (rank_value (m_upper s) v + minmax_upper_value s v) / 2"
| "transform_value s TT_MULTI_ALL v = (rank_value (m_raws s) v + minmax_all_value s v) / 2"
| "transform_value s TT_MIN_MAX_UPPER v = minmax_upper_value s v"
| "transform_value s TT_MIN_MAX_ALL v = minmax_all_value s v"
| "transform_value s TT_UNKNOWN v = 50"
| "transform_value s TT_ECDF_RANK_TRY v = 50"

section \<open>Choosing the transform\<close>

text \<open>The list whose statistics validate a candidate, and whether it asks \<open>mid_is_avg\<close>.\<close>

fun candidate_list :: "role_stats \<Rightarrow> transform_type \<Rightarrow> sample" where
  "candidate_list s TT_ECDF_RANK_UPPER = map (rank_value (m_upper s)) (sorted_data (m_upper s))"
| "candidate_list s TT_ECDF_RANK_ALL = map (rank_value (m_raws s)) (sorted_data (m_raws s))"
| "candidate_list s TT_MULTI_UPPER = sorted_data (m_upper s)"
| "candidate_list s TT_MIN_MAX_UPPER = sorted_data (m_upper s)"
| "candidate_list s TT_MULTI_ALL = sorted_data (m_raws s)"
| "candidate_list s TT_MIN_MAX_ALL = sorted_data (m_raws s)"
| "candidate_list s TT_UNKNOWN = []"
| "candidate_list s TT_ECDF_RANK_TRY = []"

fun mid_is_avg :: "transform_type \<Rightarrow> bool" where
  "mid_is_avg TT_MULTI_UPPER = True"
| "mid_is_avg TT_MULTI_ALL = True"
| "mid_is_avg TT_MIN_MAX_UPPER = True"
| "mid_is_avg TT_MIN_MAX_ALL = True"
| "mid_is_avg _ = False"

definition load_transformations :: "role_stats \<Rightarrow> transform_type \<Rightarrow> bool \<times> role_stats" where
  "load_transformations s t =
     (let (ts, s') = load_list_stats s (candidate_list s t) True in
      (case ts of None \<Rightarrow> False | Some x \<Rightarrow> transform_valid x (mid_is_avg t), s'))"

text \<open>
  The requests that leave the choice to the engine (section 4.2, step 7):
  \<open>TT_UNKNOWN\<close> and \<open>TT_ECDF_RANK_TRY\<close>.  Any other type is pinned by
  the caller.
\<close>

fun pending :: "transform_type \<Rightarrow> bool" where
  "pending TT_UNKNOWN = True"
| "pending TT_ECDF_RANK_TRY = True"
| "pending _ = False"

text \<open>
  The fixed priority order: an unknown request tries every concrete
  transform, upper before all, in the header's order; \<open>TT_ECDF_RANK_TRY\<close>
  tries rank on the upper half, then rank on everything.  The engine never
  configures a pinned type; called on one, the procedure only checks it.
\<close>

fun candidates :: "transform_type \<Rightarrow> transform_type list" where
  "candidates TT_UNKNOWN =
     [TT_ECDF_RANK_UPPER, TT_MULTI_UPPER, TT_MIN_MAX_UPPER,
      TT_ECDF_RANK_ALL, TT_MULTI_ALL, TT_MIN_MAX_ALL]"
| "candidates TT_ECDF_RANK_TRY = [TT_ECDF_RANK_UPPER, TT_ECDF_RANK_ALL]"
| "candidates t = [t]"

fun try_transforms :: "role_stats \<Rightarrow> transform_type list \<Rightarrow> role_stats" where
  "try_transforms s [] = s\<lparr>m_transform_type := TT_UNKNOWN\<rparr>"
| "try_transforms s (t # ts) =
     (let (ok, s') = load_transformations s t in
      if ok then s'\<lparr>m_transform_type := t\<rparr> else try_transforms s' ts)"

definition configure_transformations :: "role_stats \<Rightarrow> role_stats" where
  "configure_transformations s =
     try_transforms (s\<lparr>m_transformations := []\<rparr>) (candidates (m_transform_type s))"

text \<open>Step 7 of \<open>init_list\<close>: the transform is configured only when the caller did not pin one.\<close>

definition configure_if_pending :: "role_stats \<Rightarrow> role_stats" where
  "configure_if_pending s =
     (if pending (m_transform_type s) then configure_transformations s else s)"

text \<open>
  \<open>calculate_factor_value\<close>: the slope of the line through the origin and
  the rating of the median; 0 when the median is not positive.
\<close>

definition factor_value :: "role_stats \<Rightarrow> real" where
  "factor_value s =
     (if 0 < m_raw_median s
      then clamp_rating (transform_value s (m_transform_type s) (m_raw_median s)) / m_raw_median s
      else 0)"

definition calculate_factor_value :: "role_stats \<Rightarrow> role_stats" where
  "calculate_factor_value s = s\<lparr>m_factor := factor_value s\<rparr>"

section \<open>Construction and rating\<close>

text \<open>
  Steps 2-6 and 8 of \<open>init_list\<close>: the two ECDFs, the medians, the sums
  and the min-max scale of the upper partition.
\<close>

definition init_fields :: "role_stats \<Rightarrow> real \<Rightarrow> ecdf \<Rightarrow> ecdf \<Rightarrow> role_stats" where
  "init_fields s med raws up =
     (let sorted_v = sorted_data raws; upper = sorted_data up in
      s\<lparr>m_raws := raws, m_upper := up,
        m_ecdf_median := favg raws med,
        m_raw_median := med,
        m_sum_over_median := sum_list (filter (\<lambda>y. med < y) sorted_v),
        m_sum_upper := sum_list (map (favg up) upper),
        m_upper_minmax_diff := last upper - hd upper,
        m_upper_raw_min := hd upper,
        m_transform_one_percent := (last upper - hd upper) / 50\<rparr>)"

definition init_list :: "role_stats \<Rightarrow> sample \<Rightarrow> role_stats option" where
  "init_list s unsorted =
     (let sorted_v = sort unsorted in
      case find_median sorted_v of
        None \<Rightarrow> None
      | Some med \<Rightarrow>
          (case (ecdf_new sorted_v, ecdf_new (filter (\<lambda>y. med \<le> y) sorted_v)) of
             (Some raws, Some up) \<Rightarrow>
               Some (calculate_factor_value (configure_if_pending (init_fields s med raws up)))
           | _ \<Rightarrow> None))"

definition default_role_stats :: role_stats where
  "default_role_stats =
     \<lparr>m_raws = \<lparr>sorted_data = []\<rparr>, m_upper = \<lparr>sorted_data = []\<rparr>,
      m_ecdf_median = 0, m_raw_median = 0, m_sum_over_median = 0, m_sum_upper = 0,
      m_factor = 0, m_upper_minmax_diff = 0, m_upper_raw_min = 0,
      m_transform_one_percent = 0, m_transform_type = TT_UNKNOWN, m_transformations = []\<rparr>"

text \<open>The constructors \<open>RoleStats(unsorted)\<close> and \<open>RoleStats(unsorted, t)\<close>.\<close>

definition new_role_stats :: "sample \<Rightarrow> transform_type \<Rightarrow> role_stats option" where
  "new_role_stats unsorted t = init_list (default_role_stats\<lparr>m_transform_type := t\<rparr>) unsorted"

definition set_list :: "role_stats \<Rightarrow> sample \<Rightarrow> role_stats option" where
  "set_list s unsorted = init_list (s\<lparr>m_transform_type := TT_UNKNOWN\<rparr>) unsorted"

definition get_transformations_rating :: "role_stats \<Rightarrow> real \<Rightarrow> real" where
  "get_transformations_rating s val = clamp_rating (transform_value s (m_transform_type s) val)"

definition get_rating :: "role_stats \<Rightarrow> real \<Rightarrow> real" where
  "get_rating s val =
     (case m_transform_type s of
        TT_UNKNOWN \<Rightarrow> 50
      | TT_ECDF_RANK_TRY \<Rightarrow> 50
      | t \<Rightarrow> if is_upper t \<and> val < m_raw_median s
             then clamp_rating (val * m_factor s)
             else get_transformations_rating s val)"

text \<open>The definitions a rating unfolds to, collected for evaluation.\<close>

declare get_rating_def [rating_defs] get_transformations_rating_def [rating_defs]
  clamp_rating_def [rating_defs] rank_value_def [rating_defs] favg_def [rating_defs]
  minmax_upper_value_def [rating_defs] minmax_all_value_def [rating_defs]
  range_transform_def [rating_defs]

section \<open>Specification-level definitions\<close>

text \<open>
  Whether a candidate transform is valid for the engine's data and the
  statistics its try records; the candidates tried (all of them up to and
  including the first valid one) and the one selected.  These are the
  abstract description that \<open>configure_transformations\<close> is proved to
  implement.
\<close>

definition valid_for :: "role_stats \<Rightarrow> transform_type \<Rightarrow> bool" where
  "valid_for s t =
     (case list_stats (candidate_list s t) of
        None \<Rightarrow> False
      | Some x \<Rightarrow> transform_valid x (mid_is_avg t))"

definition stats_of :: "role_stats \<Rightarrow> transform_type \<Rightarrow> transform_stats list" where
  "stats_of s t = (case list_stats (candidate_list s t) of None \<Rightarrow> [] | Some x \<Rightarrow> [x])"

fun tried :: "(transform_type \<Rightarrow> bool) \<Rightarrow> transform_type list \<Rightarrow> transform_type list" where
  "tried ok [] = []"
| "tried ok (t # ts) = t # (if ok t then [] else tried ok ts)"

definition selected :: "role_stats \<Rightarrow> transform_type list \<Rightarrow> transform_type" where
  "selected s ts = (case find (valid_for s) ts of None \<Rightarrow> TT_UNKNOWN | Some t \<Rightarrow> t)"

text \<open>
  The engine invariant: both ECDFs well formed, the median and the upper
  partition those of the raw data, the min-max scale and the factor the
  ones their definitions give, and the transform never the pending
  \<open>TT_ECDF_RANK_TRY\<close>.  An engine whose transform the engine chose
  itself has moreover a checked transform: unknown (no candidate was
  valid) or valid for the data.
\<close>

definition role_stats_wf :: "role_stats \<Rightarrow> bool" where
  "role_stats_wf s \<longleftrightarrow>
     ecdf_wf (m_raws s) \<and> ecdf_wf (m_upper s) \<and>
     find_median (sorted_data (m_raws s)) = Some (m_raw_median s) \<and>
     sorted_data (m_upper s) = filter (\<lambda>y. m_raw_median s \<le> y) (sorted_data (m_raws s)) \<and>
     m_upper_raw_min s = hd (sorted_data (m_upper s)) \<and>
     m_transform_one_percent s = (last (sorted_data (m_upper s)) - hd (sorted_data (m_upper s))) / 50 \<and>
     m_factor s = factor_value s \<and>
     m_transform_type s \<noteq> TT_ECDF_RANK_TRY"

definition transform_checked :: "role_stats \<Rightarrow> bool" where
  "transform_checked s \<longleftrightarrow> m_transform_type s = TT_UNKNOWN \<or> valid_for s (m_transform_type s)"

text \<open>
  Where the C++ code divides, the divisor is not zero: the min-max scale of
  the upper partition for the upper min-max transforms, the two halves of
  the range for \<open>range_transform\<close>.
\<close>

fun divisions_defined :: "role_stats \<Rightarrow> transform_type \<Rightarrow> bool" where
  "divisions_defined s TT_MIN_MAX_UPPER = (0 < m_transform_one_percent s)"
| "divisions_defined s TT_MULTI_UPPER = (0 < m_transform_one_percent s)"
| "divisions_defined s TT_MIN_MAX_ALL =
     (hd (sorted_data (m_raws s)) < m_raw_median s \<and> m_raw_median s < last (sorted_data (m_raws s)))"
| "divisions_defined s TT_MULTI_ALL =
     (hd (sorted_data (m_raws s)) < m_raw_median s \<and> m_raw_median s < last (sorted_data (m_raws s)))"
| "divisions_defined s _ = True"

section \<open>Lemmas on the helpers\<close>

subsection \<open>Median\<close>

lemma find_median_None_iff: "find_median v = None \<longleftrightarrow> v = []"
  by (simp add: find_median_def Let_def sort_Nil_iff)

lemma find_median_Nil [simp]: "find_median [] = None"
  by (simp add: find_median_None_iff)

lemma find_median_sort: "find_median (sort v) = find_median v"
  by (simp add: find_median_def sorted_sort_id)

lemma find_median_Some_ne: "find_median v = Some m \<Longrightarrow> v \<noteq> []"
  using find_median_None_iff by (metis option.distinct(1))

lemma find_median_eq:
  assumes "v \<noteq> []" "find_median v = Some m"
  shows "m = (if even (length v)
              then (sort v ! (length v div 2 - 1) + sort v ! (length v div 2)) / 2
              else sort v ! (length v div 2))"
  using assms unfolding find_median_def Let_def
  by (simp only: length_sort sort_Nil_iff if_False option.inject) simp

lemma sorted_nth_between:
  fixes xs :: "real list"
  assumes "sorted xs" "i < length xs"
  shows "hd xs \<le> xs ! i \<and> xs ! i \<le> last xs"
proof -
  have "xs ! i \<in> set xs" using assms(2) by (rule nth_mem)
  then show ?thesis using assms(1) sorted_hd_le sorted_le_last by blast
qed

lemma sort_nth_between:
  fixes v :: "real list"
  assumes "i < length v"
  shows "hd (sort v) \<le> sort v ! i \<and> sort v ! i \<le> last (sort v)"
proof -
  have "i < length (sort v)" using assms by (simp only: length_sort)
  then show ?thesis by (rule sorted_nth_between [OF sorted_sort])
qed

lemma find_median_bounds:
  assumes "find_median v = Some m"
  shows "hd (sort v) \<le> m \<and> m \<le> last (sort v)"
proof -
  have ne: "v \<noteq> []" using assms by (rule find_median_Some_ne)
  let ?k = "length v div 2"
  have k: "?k < length v" using ne by simp
  have b: "hd (sort v) \<le> sort v ! ?k" "sort v ! ?k \<le> last (sort v)"
    using sort_nth_between [OF k] by auto
  show ?thesis
  proof (cases "even (length v)")
    case True
    have k1: "?k - 1 < length v" using k by simp
    have a: "hd (sort v) \<le> sort v ! (?k - 1)" "sort v ! (?k - 1) \<le> last (sort v)"
      using sort_nth_between [OF k1] by auto
    have "m = (sort v ! (?k - 1) + sort v ! ?k) / 2"
      using find_median_eq [OF ne assms] True by simp
    then show ?thesis using a b by argo
  next
    case False
    then have "m = sort v ! ?k" using find_median_eq [OF ne assms] by simp
    then show ?thesis using b by simp
  qed
qed

subsection \<open>Smoothed rank and the transforms\<close>

lemma favg_bounds:
  "ecdf_wf e \<Longrightarrow> 1 / 2 \<le> favg e x \<and> favg e x \<le> 1"
  unfolding favg_def using ecdf_bounds_order [of e x] by (simp add: field_simps)

lemma favg_mono [mono_intros]:
  "ecdf_wf e \<Longrightarrow> x \<le> y \<Longrightarrow> favg e x \<le> favg e y"
  using fminus_mono [of e x y] fplus_mono [of e x y] by (simp add: favg_def)

lemma rank_value_mono [mono_intros]:
  "ecdf_wf e \<Longrightarrow> x \<le> y \<Longrightarrow> rank_value e x \<le> rank_value e y"
  by (simp add: rank_value_def favg_mono)

lemma rank_value_bounds:
  "ecdf_wf e \<Longrightarrow> 50 \<le> rank_value e x \<and> rank_value e x \<le> 100"
  using favg_bounds [of e x] by (simp add: rank_value_def)

lemma range_transform_mono [mono_intros]:
  assumes "lo \<le> mid" "mid \<le> hi" "v \<le> w"
  shows "range_transform v lo mid hi \<le> range_transform w lo mid hi"
proof -
  have low: "50 * (x - lo) / (mid - lo) \<le> 50" if "x < mid" for x
  proof (cases "lo = mid")
    case False
    then have "0 < mid - lo" using assms(1) by simp
    then show ?thesis using that by (simp add: divide_le_eq)
  qed simp
  have high: "50 \<le> 50 + 50 * (x - mid) / (hi - mid)" if "mid \<le> x" for x
    using that assms(2) by simp
  show ?thesis
  proof (cases "w < mid")
    case True
    then have "v < mid" using assms(3) by simp
    with True show ?thesis
      using assms by (simp add: range_transform_def divide_right_mono)
  next
    case wm: False
    show ?thesis
    proof (cases "v < mid")
      case True
      then show ?thesis using wm low [OF True] high [of w] by (simp add: range_transform_def)
    next
      case False
      with wm show ?thesis
        using assms by (simp add: range_transform_def divide_right_mono)
    qed
  qed
qed

lemma clamp_rating_bounds: "0 \<le> clamp_rating x \<and> clamp_rating x \<le> 100"
  by (simp add: clamp_rating_def)

lemma clamp_rating_mono [mono_intros]: "x \<le> y \<Longrightarrow> clamp_rating x \<le> clamp_rating y"
  by (simp add: clamp_rating_def clamp_mono)

lemma clamp_rating_id: "0 \<le> x \<Longrightarrow> x \<le> 100 \<Longrightarrow> clamp_rating x = x"
  by (simp add: clamp_rating_def)

section \<open>The configuration steps\<close>

subsection \<open>What a candidate's validity depends on\<close>

lemma load_transformations_eq:
  "load_transformations s t =
     (valid_for s t, s\<lparr>m_transformations := m_transformations s @ stats_of s t\<rparr>)"
  by (simp add: load_transformations_def load_list_stats_def valid_for_def stats_of_def
           split: option.split)

lemma candidate_list_cong:
  "m_raws s = m_raws s' \<Longrightarrow> m_upper s = m_upper s' \<Longrightarrow> candidate_list s t = candidate_list s' t"
  by (cases t) simp_all

lemma valid_for_cong:
  "m_raws s = m_raws s' \<Longrightarrow> m_upper s = m_upper s' \<Longrightarrow> valid_for s t = valid_for s' t"
  by (simp add: valid_for_def candidate_list_cong [of s s' t])

lemma stats_of_cong:
  "m_raws s = m_raws s' \<Longrightarrow> m_upper s = m_upper s' \<Longrightarrow> stats_of s t = stats_of s' t"
  by (simp add: stats_of_def candidate_list_cong [of s s' t])

lemma valid_for_not_pending:
  "\<not> valid_for s TT_UNKNOWN" "\<not> valid_for s TT_ECDF_RANK_TRY"
  by (simp_all add: valid_for_def list_stats_def)

subsection \<open>The abstract selection\<close>

lemma try_transforms_result:
  "try_transforms s ts =
     s\<lparr>m_transformations := m_transformations s @ concat (map (stats_of s) (tried (valid_for s) ts)),
       m_transform_type := selected s ts\<rparr>"
proof (induction ts arbitrary: s)
  case Nil
  show ?case by (simp add: selected_def)
next
  case (Cons t ts)
  let ?s' = "s\<lparr>m_transformations := m_transformations s @ stats_of s t\<rparr>"
  have v: "valid_for ?s' = valid_for s"
    by (rule ext, rule valid_for_cong) simp_all
  have st: "stats_of ?s' = stats_of s"
    by (rule ext, rule stats_of_cong) simp_all
  show ?case
  proof (cases "valid_for s t")
    case True
    then show ?thesis by (simp add: load_transformations_eq selected_def)
  next
    case False
    then have "try_transforms s (t # ts) = try_transforms ?s' ts"
      by (simp add: load_transformations_eq)
    also have "\<dots> = ?s'\<lparr>m_transformations := m_transformations ?s' @ concat (map (stats_of ?s') (tried (valid_for ?s') ts)),
       m_transform_type := selected ?s' ts\<rparr>"
      by (rule Cons.IH)
    finally show ?thesis using False by (simp add: v st selected_def)
  qed
qed

lemma selected_valid:
  assumes "selected s ts \<noteq> TT_UNKNOWN"
  shows "valid_for s (selected s ts) \<and> selected s ts \<in> set ts"
proof (cases "find (valid_for s) ts")
  case None
  then show ?thesis using assms by (simp add: selected_def)
next
  case (Some t)
  then have "valid_for s t \<and> t \<in> set ts" by (auto simp: find_Some_iff)
  with Some show ?thesis by (simp add: selected_def)
qed

lemma selected_not_try: "selected s ts \<noteq> TT_ECDF_RANK_TRY"
  using selected_valid [of s ts] valid_for_not_pending(2) [of s] by auto

section \<open>The invariant\<close>

lemma wf_median_bounds:
  assumes "role_stats_wf s"
  shows "hd (sorted_data (m_raws s)) \<le> m_raw_median s \<and> m_raw_median s \<le> last (sorted_data (m_raws s))"
proof -
  have "sorted (sorted_data (m_raws s))" using assms by (simp add: role_stats_wf_def ecdf_wf_def)
  then have "sort (sorted_data (m_raws s)) = sorted_data (m_raws s)" by (rule sorted_sort_id)
  then show ?thesis
    using find_median_bounds [of "sorted_data (m_raws s)"] assms by (simp add: role_stats_wf_def)
qed

lemma wf_one_percent_nonneg:
  assumes "role_stats_wf s"
  shows "0 \<le> m_transform_one_percent s"
proof -
  have "ecdf_wf (m_upper s)" using assms by (simp add: role_stats_wf_def)
  then have h: "hd (sorted_data (m_upper s)) \<le> last (sorted_data (m_upper s))"
    unfolding ecdf_wf_def by (metis hd_in_set sorted_le_last)
  have eq: "m_transform_one_percent s = (last (sorted_data (m_upper s)) - hd (sorted_data (m_upper s))) / 50"
    using assms unfolding role_stats_wf_def by blast
  show ?thesis using h unfolding eq by simp
qed

lemma transform_value_mono [mono_intros]:
  assumes "role_stats_wf s" "v \<le> w"
  shows "transform_value s t v \<le> transform_value s t w"
proof -
  have e: "ecdf_wf (m_raws s)" "ecdf_wf (m_upper s)" using assms(1) by (simp_all add: role_stats_wf_def)
  have r: "rank_value (m_raws s) v \<le> rank_value (m_raws s) w"
          "rank_value (m_upper s) v \<le> rank_value (m_upper s) w"
    using e assms(2) by (simp_all add: rank_value_mono)
  have u: "minmax_upper_value s v \<le> minmax_upper_value s w"
    using wf_one_percent_nonneg [OF assms(1)] assms(2)
    by (simp add: minmax_upper_value_def divide_right_mono)
  have a: "minmax_all_value s v \<le> minmax_all_value s w"
    using wf_median_bounds [OF assms(1)] assms(2)
    by (simp add: minmax_all_value_def range_transform_mono)
  show ?thesis using r u a by (cases t) simp_all
qed

section \<open>Construction\<close>

lemma transform_value_frame [simp]:
  "transform_value (s\<lparr>m_factor := x\<rparr>) t v = transform_value s t v"
  "transform_value (s\<lparr>m_transformations := h\<rparr>) t v = transform_value s t v"
  "transform_value (s\<lparr>m_transform_type := u\<rparr>) t v = transform_value s t v"
  by (cases t; simp add: minmax_upper_value_def minmax_all_value_def)+

lemma factor_value_frame [simp]: "factor_value (s\<lparr>m_factor := x\<rparr>) = factor_value s"
  by (simp add: factor_value_def)

lemma configure_transformations_eq:
  "configure_transformations s =
     s\<lparr>m_transformations := concat (map (stats_of s) (tried (valid_for s) (candidates (m_transform_type s)))),
       m_transform_type := selected s (candidates (m_transform_type s))\<rparr>"
proof -
  let ?s0 = "s\<lparr>m_transformations := []\<rparr>"
  have v: "valid_for ?s0 = valid_for s" by (rule ext, rule valid_for_cong) simp_all
  have st: "stats_of ?s0 = stats_of s" by (rule ext, rule stats_of_cong) simp_all
  have se: "selected ?s0 = selected s" by (simp add: fun_eq_iff selected_def v)
  show ?thesis by (simp add: configure_transformations_def try_transforms_result v st se)
qed

lemma init_fields_type [simp]: "m_transform_type (init_fields s med r u) = m_transform_type s"
  by (simp add: init_fields_def Let_def)

lemma configure_if_pending_frame [simp]:
  "m_raws (configure_if_pending s) = m_raws s" "m_upper (configure_if_pending s) = m_upper s"
  "m_raw_median (configure_if_pending s) = m_raw_median s"
  "m_upper_raw_min (configure_if_pending s) = m_upper_raw_min s"
  "m_transform_one_percent (configure_if_pending s) = m_transform_one_percent s"
  by (simp_all add: configure_if_pending_def configure_transformations_eq)

lemma configure_if_pending_type:
  "m_transform_type (configure_if_pending s) =
     (if pending (m_transform_type s) then selected s (candidates (m_transform_type s)) else m_transform_type s)"
  by (simp add: configure_if_pending_def configure_transformations_eq)

lemma configure_if_pending_eq:
  "pending (m_transform_type s) \<Longrightarrow> configure_if_pending s = configure_transformations s"
  by (simp add: configure_if_pending_def)

lemma upper_partition_nonempty:
  assumes "find_median xs = Some med"
  shows "filter (\<lambda>y. med \<le> y) (sort xs) \<noteq> []"
proof -
  have ne: "sort xs \<noteq> []" using find_median_Some_ne [OF assms] by (simp add: sort_Nil_iff)
  have "med \<le> last (sort xs)" using find_median_bounds [OF assms] by simp
  moreover have "last (sort xs) \<in> set (sort xs)" using ne by (rule last_in_set)
  ultimately show ?thesis by (auto simp: filter_empty_conv)
qed

lemma init_list_eq:
  assumes "find_median xs = Some med"
  shows "init_list s xs = Some (calculate_factor_value (configure_if_pending
           (init_fields s med \<lparr>sorted_data = sort xs\<rparr> \<lparr>sorted_data = filter (\<lambda>y. med \<le> y) (sort xs)\<rparr>)))"
  using assms upper_partition_nonempty [OF assms]
  by (simp add: init_list_def find_median_sort ecdf_new_def sort_Nil_iff find_median_Some_ne Let_def)

lemma init_list_None_iff: "init_list s xs = None \<longleftrightarrow> xs = []"
proof (cases "find_median xs")
  case None
  then show ?thesis by (simp add: init_list_def find_median_sort find_median_None_iff)
next
  case (Some med)
  then show ?thesis using init_list_eq [OF Some] find_median_Some_ne [OF Some] by simp
qed

lemma init_list_Nil [simp]: "init_list s [] = None"
  by (simp add: init_list_None_iff)

text \<open>What \<open>init_list\<close> sets, for an engine built from a non-empty sample.\<close>

lemma init_list_Some_cases:
  assumes "init_list s xs = Some s'"
  obtains med where "find_median xs = Some med"
    and "s' = calculate_factor_value (configure_if_pending
           (init_fields s med \<lparr>sorted_data = sort xs\<rparr> \<lparr>sorted_data = filter (\<lambda>y. med \<le> y) (sort xs)\<rparr>))"
proof -
  have "xs \<noteq> []" using assms init_list_None_iff by fastforce
  then obtain med where fm: "find_median xs = Some med"
    by (cases "find_median xs") (simp_all add: find_median_None_iff)
  then show ?thesis using that assms init_list_eq [OF fm, of s] by simp
qed

lemma init_list_wf:
  assumes "init_list s xs = Some s'"
  shows "role_stats_wf s'"
proof -
  obtain med where fm: "find_median xs = Some med" and
    s'0: "s' = calculate_factor_value (configure_if_pending
           (init_fields s med \<lparr>sorted_data = sort xs\<rparr> \<lparr>sorted_data = filter (\<lambda>y. med \<le> y) (sort xs)\<rparr>))"
    using init_list_Some_cases [OF assms] by blast
  let ?up = "filter (\<lambda>y. med \<le> y) (sort xs)"
  define s1 where "s1 = init_fields s med \<lparr>sorted_data = sort xs\<rparr> \<lparr>sorted_data = ?up\<rparr>"
  define s2 where "s2 = configure_if_pending s1"
  have s': "s' = s2\<lparr>m_factor := factor_value s2\<rparr>"
    using s'0 by (simp add: s1_def s2_def calculate_factor_value_def)
  have f1: "m_raws s1 = \<lparr>sorted_data = sort xs\<rparr>" "m_upper s1 = \<lparr>sorted_data = ?up\<rparr>"
    "m_raw_median s1 = med" "m_upper_raw_min s1 = hd ?up"
    "m_transform_one_percent s1 = (last ?up - hd ?up) / 50"
    by (simp_all add: s1_def init_fields_def Let_def)
  have f2: "m_raws s' = m_raws s1" "m_upper s' = m_upper s1" "m_raw_median s' = m_raw_median s1"
    "m_upper_raw_min s' = m_upper_raw_min s1"
    "m_transform_one_percent s' = m_transform_one_percent s1"
    by (simp_all add: s' s2_def)
  have e: "ecdf_wf (m_raws s')" "ecdf_wf (m_upper s')"
    using upper_partition_nonempty [OF fm] find_median_Some_ne [OF fm]
    by (simp_all add: f2 f1 ecdf_wf_def sort_Nil_iff sorted_wrt_filter)
  have m: "find_median (sorted_data (m_raws s')) = Some (m_raw_median s')"
    using fm by (simp add: f2 f1 find_median_sort)
  have t: "m_transform_type s' \<noteq> TT_ECDF_RANK_TRY"
    using selected_not_try [of s1] configure_if_pending_type [of s1]
    by (cases "m_transform_type s1") (simp_all add: s' s2_def)
  have fa: "m_factor s' = factor_value s'" by (simp add: s')
  show ?thesis
    unfolding role_stats_wf_def using e m t fa by (simp add: f2 f1)
qed

text \<open>
  The transform of a constructed engine: the first valid candidate when
  the request was pending, the caller's type when it was pinned.
\<close>

lemma init_list_type:
  assumes "init_list s xs = Some s'"
  shows "m_transform_type s' =
           (if pending (m_transform_type s) then selected s' (candidates (m_transform_type s))
            else m_transform_type s)"
proof -
  obtain med where s'0: "s' = calculate_factor_value (configure_if_pending
           (init_fields s med \<lparr>sorted_data = sort xs\<rparr> \<lparr>sorted_data = filter (\<lambda>y. med \<le> y) (sort xs)\<rparr>))"
    using init_list_Some_cases [OF assms] by blast
  define s1 where "s1 = init_fields s med \<lparr>sorted_data = sort xs\<rparr> \<lparr>sorted_data = filter (\<lambda>y. med \<le> y) (sort xs)\<rparr>"
  have ty: "m_transform_type s1 = m_transform_type s" by (simp add: s1_def init_fields_def Let_def)
  have v: "valid_for s' = valid_for s1"
    by (rule ext, rule valid_for_cong) (simp_all add: s'0 s1_def [symmetric] calculate_factor_value_def)
  then have "selected s' = selected s1" by (simp add: fun_eq_iff selected_def v)
  moreover have "m_transform_type s' = m_transform_type (configure_if_pending s1)"
    by (simp add: s'0 s1_def [symmetric] calculate_factor_value_def)
  ultimately show ?thesis using configure_if_pending_type [of s1] by (simp add: ty)
qed

lemma init_list_checked:
  assumes "init_list s xs = Some s'" and "pending (m_transform_type s)"
  shows "transform_checked s'"
  using init_list_type [OF assms(1)] assms(2) selected_valid [of s']
  by (auto simp: transform_checked_def)

lemma new_role_stats_wf: "new_role_stats xs t = Some s \<Longrightarrow> role_stats_wf s"
  unfolding new_role_stats_def by (rule init_list_wf)

lemma new_role_stats_checked: "new_role_stats xs t = Some s \<Longrightarrow> pending t \<Longrightarrow> transform_checked s"
  using init_list_checked [of "default_role_stats\<lparr>m_transform_type := t\<rparr>" xs s] by (simp add: new_role_stats_def)

lemma new_role_stats_pinned: "new_role_stats xs t = Some s \<Longrightarrow> \<not> pending t \<Longrightarrow> m_transform_type s = t"
  unfolding new_role_stats_def by (drule init_list_type) simp

lemma new_role_stats_exists: "xs \<noteq> [] \<Longrightarrow> \<exists>s. new_role_stats xs t = Some s"
  using init_list_None_iff by (cases "new_role_stats xs t") (auto simp: new_role_stats_def)

lemma count_less_sort [simp]: "count_less (sort xs) x = count_less xs x"
  by (simp add: count_less_def filter_sort)

lemma count_le_sort [simp]: "count_le (sort xs) x = count_le xs x"
  by (simp add: count_le_def filter_sort)

section \<open>Rating\<close>

lemma factor_value_nonneg: "0 \<le> factor_value s"
  using clamp_rating_bounds by (simp add: factor_value_def)

lemma factor_value_at_median:
  "0 < m_raw_median s \<Longrightarrow>
   m_raw_median s * factor_value s = clamp_rating (transform_value s (m_transform_type s) (m_raw_median s))"
  by (simp add: factor_value_def)

lemma get_rating_concrete:
  assumes "m_transform_type s \<noteq> TT_UNKNOWN" "m_transform_type s \<noteq> TT_ECDF_RANK_TRY"
  shows "get_rating s v =
           (if is_upper (m_transform_type s) \<and> v < m_raw_median s
            then clamp_rating (v * m_factor s)
            else clamp_rating (transform_value s (m_transform_type s) v))"
  using assms by (cases "m_transform_type s") (simp_all add: get_rating_def get_transformations_rating_def)

lemma below_median_le:
  assumes wf: "role_stats_wf s" and v: "v < m_raw_median s" and w: "m_raw_median s \<le> w"
  shows "clamp_rating (v * m_factor s) \<le> clamp_rating (transform_value s (m_transform_type s) w)"
proof -
  let ?T = "\<lambda>x. clamp_rating (transform_value s (m_transform_type s) x)"
  have f: "m_factor s = factor_value s" using wf by (simp add: role_stats_wf_def)
  show ?thesis
  proof (cases "0 < m_raw_median s")
    case True
    have "v * factor_value s \<le> m_raw_median s * factor_value s"
      using v factor_value_nonneg by (simp add: mult_right_mono)
    also have "\<dots> = ?T (m_raw_median s)" using True by (rule factor_value_at_median)
    finally have "clamp_rating (v * factor_value s) \<le> clamp_rating (?T (m_raw_median s))"
      by (rule clamp_rating_mono)
    also have "\<dots> = ?T (m_raw_median s)" using clamp_rating_bounds by (simp add: clamp_rating_id)
    also have "\<dots> \<le> ?T w" using wf w by (intro mono_intros)
    finally show ?thesis by (simp add: f)
  next
    case False
    then have "m_factor s = 0" by (simp add: f factor_value_def)
    then show ?thesis using clamp_rating_bounds by (simp add: clamp_rating_def)
  qed
qed

lemma get_rating_mono_wf:
  assumes wf: "role_stats_wf s" and vw: "v \<le> w"
  shows "get_rating s v \<le> get_rating s w"
proof (cases "m_transform_type s = TT_UNKNOWN \<or> m_transform_type s = TT_ECDF_RANK_TRY")
  case True
  then show ?thesis by (auto simp: get_rating_def)
next
  case False
  then have g: "get_rating s x =
           (if is_upper (m_transform_type s) \<and> x < m_raw_median s
            then clamp_rating (x * m_factor s)
            else clamp_rating (transform_value s (m_transform_type s) x))" for x
    by (intro get_rating_concrete) auto
  have T: "clamp_rating (transform_value s (m_transform_type s) v)
           \<le> clamp_rating (transform_value s (m_transform_type s) w)"
    using wf vw by (intro mono_intros)
  have F: "clamp_rating (v * m_factor s) \<le> clamp_rating (w * m_factor s)"
  proof -
    have "0 \<le> m_factor s" using wf factor_value_nonneg by (simp add: role_stats_wf_def)
    with vw show ?thesis by (intro clamp_rating_mono mult_right_mono)
  qed
  show ?thesis
  proof (cases "is_upper (m_transform_type s)")
    case False
    then show ?thesis using T by (simp add: g)
  next
    case True
    consider "w < m_raw_median s" | "v < m_raw_median s" "m_raw_median s \<le> w" | "m_raw_median s \<le> v"
      by linarith
    then show ?thesis
    proof cases
      case 1
      then show ?thesis using True F vw by (simp add: g)
    next
      case 2
      then show ?thesis using True below_median_le [OF wf 2] by (simp add: g)
    next
      case 3
      then show ?thesis using True T vw by (simp add: g)
    qed
  qed
qed

section \<open>Facts about constructed engines\<close>

lemma init_list_fields:
  assumes "init_list s0 xs = Some s"
  shows "sorted_data (m_raws s) = sort xs \<and> find_median xs = Some (m_raw_median s)"
proof -
  have "xs \<noteq> []"
  proof
    assume "xs = []"
    then have "init_list s0 xs = None" by (simp add: init_list_None_iff)
    with assms show False by simp
  qed
  then obtain med where fm: "find_median xs = Some med"
    by (cases "find_median xs") (simp_all add: find_median_None_iff)
  show ?thesis
    using assms init_list_eq [OF fm, of s0] fm
    by (auto simp: calculate_factor_value_def init_fields_def Let_def)
qed

text \<open>The ECDF over the whole sample of a constructed engine answers with shares of the input.\<close>

lemma engine_raws:
  assumes "new_role_stats xs t = Some s"
  shows "sorted_data (m_raws s) = sort xs \<and> xs \<noteq> []"
proof -
  have "init_list (default_role_stats\<lparr>m_transform_type := t\<rparr>) xs = Some s"
    using assms by (simp add: new_role_stats_def)
  then show ?thesis using init_list_fields find_median_Some_ne by blast
qed

lemma engine_fractions:
  assumes "new_role_stats xs t = Some s"
  shows "fminus (m_raws s) x = real (count_less xs x) / real (length xs) \<and>
         fplus (m_raws s) x = real (count_le xs x) / real (length xs)"
proof -
  have "ecdf_wf (m_raws s)" using new_role_stats_wf [OF assms] by (simp add: role_stats_wf_def)
  then show ?thesis using engine_raws [OF assms] by (simp add: ecdf_counts)
qed

lemma list_stats_Some:
  assumes "list_stats ys = Some x"
  shows "ts_min x = hd (sort ys) \<and> ts_max x = last (sort ys) \<and> find_median ys = Some (median x)"
  using assms by (auto simp: list_stats_def Let_def split: option.splits)

lemma list_stats_flat:
  assumes "list_stats ys = Some x" "\<forall>y\<in>set ys. y = d"
  shows "ts_min x = ts_max x"
proof -
  have ne: "sort ys \<noteq> []"
    using assms(1) find_median_Some_ne list_stats_Some sort_Nil_iff by metis
  have "hd (sort ys) \<in> set ys" "last (sort ys) \<in> set ys"
    using ne hd_in_set last_in_set by (metis set_sort)+
  then have "hd (sort ys) = d" "last (sort ys) = d" using assms(2) by blast+
  then show ?thesis using list_stats_Some [OF assms(1)] by simp
qed

lemma wf_upper_subset:
  "role_stats_wf s \<Longrightarrow> set (sorted_data (m_upper s)) \<subseteq> set (sorted_data (m_raws s))"
  by (auto simp: role_stats_wf_def)

lemma candidate_list_flat:
  assumes "role_stats_wf s" "\<forall>y\<in>set (sorted_data (m_raws s)). y = c"
  shows "\<exists>d. \<forall>y\<in>set (candidate_list s u). y = d"
proof -
  have up: "\<forall>y\<in>set (sorted_data (m_upper s)). y = c"
    using assms wf_upper_subset by blast
  show ?thesis
  proof (cases u)
    case TT_ECDF_RANK_UPPER
    then show ?thesis using up by (intro exI [of _ "rank_value (m_upper s) c"]) auto
  next
    case TT_ECDF_RANK_ALL
    then show ?thesis using assms(2) by (intro exI [of _ "rank_value (m_raws s) c"]) auto
  qed (use up assms(2) in auto)
qed

lemma flat_not_valid:
  assumes "role_stats_wf s" "\<forall>y\<in>set (sorted_data (m_raws s)). y = c"
  shows "\<not> valid_for s u"
proof
  assume v: "valid_for s u"
  obtain d where d: "\<forall>y\<in>set (candidate_list s u). y = d"
    using candidate_list_flat [OF assms] by blast
  obtain x where x: "list_stats (candidate_list s u) = Some x" "transform_valid x (mid_is_avg u)"
    using v by (auto simp: valid_for_def split: option.splits)
  have "ts_min x = ts_max x" using list_stats_flat [OF x(1) d] .
  with x(2) show False by (simp add: transform_valid_def)
qed

text \<open>A checked transform of a well-formed engine never divides by zero.\<close>

lemma checked_divisions_defined:
  assumes wf: "role_stats_wf s" and ch: "transform_checked s"
  shows "divisions_defined s (m_transform_type s)"
proof -
  let ?raw = "sorted_data (m_raws s)" and ?up = "sorted_data (m_upper s)"
  have "sorted ?raw" "sorted ?up" using wf unfolding role_stats_wf_def ecdf_wf_def by blast+
  then have sr: "sort ?raw = ?raw" "sort ?up = ?up" by (simp_all add: sorted_sort_id)
  have up: "(\<exists>x. list_stats ?up = Some x \<and> transform_valid x True) \<Longrightarrow> 0 < m_transform_one_percent s"
    using wf sr by (auto simp: role_stats_wf_def transform_valid_def dest!: list_stats_Some)
  have al: "(\<exists>x. list_stats ?raw = Some x \<and> transform_valid x True) \<Longrightarrow>
            hd ?raw < m_raw_median s \<and> m_raw_median s < last ?raw"
    using wf sr by (auto simp: role_stats_wf_def transform_valid_def dest!: list_stats_Some)
  show ?thesis
  proof (cases "m_transform_type s = TT_UNKNOWN")
    case True
    then show ?thesis by simp
  next
    case False
    then have v: "valid_for s (m_transform_type s)" using ch by (simp add: transform_checked_def)
    then show ?thesis
      using up al by (cases "m_transform_type s") (auto simp: valid_for_def split: option.splits)
  qed
qed

text \<open>On a sample of equal values no min-max scale is defined.\<close>

lemma flat_divisions_undefined:
  assumes wf: "role_stats_wf s" and flat: "\<forall>y\<in>set (sorted_data (m_raws s)). y = c"
    and t: "t \<in> {TT_MULTI_UPPER, TT_MULTI_ALL, TT_MIN_MAX_UPPER, TT_MIN_MAX_ALL}"
  shows "\<not> divisions_defined s t"
proof -
  let ?raw = "sorted_data (m_raws s)" and ?up = "sorted_data (m_upper s)"
  have ne: "?raw \<noteq> []" "?up \<noteq> []" using wf unfolding role_stats_wf_def ecdf_wf_def by blast+
  have "\<forall>y\<in>set ?up. y = c" using flat wf_upper_subset [OF wf] by blast
  then have "hd ?up = c" "last ?up = c" using ne(2) hd_in_set last_in_set by blast+
  then have op: "m_transform_one_percent s = 0" using wf by (simp add: role_stats_wf_def)
  have "hd ?raw = c" "last ?raw = c" using ne(1) flat hd_in_set last_in_set by blast+
  moreover have "hd ?raw \<le> m_raw_median s" using wf_median_bounds [OF wf] by blast
  ultimately have "\<not> (hd ?raw < m_raw_median s \<and> m_raw_median s < last ?raw)" by linarith
  then show ?thesis using t op by auto
qed

lemmas role_stats_eval = configure_if_pending_def
  new_role_stats_def init_list_def init_fields_def find_median_def ecdf_new_def
  configure_transformations_def load_transformations_def load_list_stats_def list_stats_def
  transform_valid_def rating_defs fplus_def fminus_def lower_bound_def
  upper_bound_def bsearch_def bsearch_it.simps calculate_factor_value_def factor_value_def
  default_role_stats_def Let_def

text \<open>\<open>set_list\<close> keeps nothing of the engine it is called on.\<close>

lemma set_list_new: "set_list s xs = new_role_stats xs TT_UNKNOWN"
proof (cases "find_median xs")
  case None
  then show ?thesis
    by (simp add: set_list_def new_role_stats_def init_list_None_iff find_median_None_iff)
next
  case (Some med)
  let ?r = "\<lparr>sorted_data = sort xs\<rparr>" and ?u = "\<lparr>sorted_data = filter (\<lambda>y. med \<le> y) (sort xs)\<rparr>"
  define A where "A = init_fields (s\<lparr>m_transform_type := TT_UNKNOWN\<rparr>) med ?r ?u"
  define B where "B = init_fields (default_role_stats\<lparr>m_transform_type := TT_UNKNOWN\<rparr>) med ?r ?u"
  have cr: "m_raws A = m_raws B" "m_upper A = m_upper B" "m_transform_type A = m_transform_type B"
    by (simp_all add: A_def B_def init_fields_def Let_def)
  have v: "valid_for A = valid_for B" by (rule ext, rule valid_for_cong) (simp_all add: cr)
  have st: "stats_of A = stats_of B" by (rule ext, rule stats_of_cong) (simp_all add: cr)
  have se: "selected A = selected B" by (simp add: fun_eq_iff selected_def v)
  define X where "X = concat (map (stats_of B) (tried (valid_for B) (candidates TT_UNKNOWN)))"
  define Y where "Y = selected B (candidates TT_UNKNOWN)"
  have full: "A\<lparr>m_transformations := X, m_transform_type := Y, m_factor := 0\<rparr>
            = B\<lparr>m_transformations := X, m_transform_type := Y, m_factor := 0\<rparr>"
    by (cases s) (simp add: A_def B_def init_fields_def Let_def default_role_stats_def)
  have fv: "factor_value (A\<lparr>m_transformations := X, m_transform_type := Y\<rparr>)
          = factor_value (B\<lparr>m_transformations := X, m_transform_type := Y\<rparr>)"
    using arg_cong [OF full, of factor_value] by simp
  have "calculate_factor_value (configure_transformations A)
      = calculate_factor_value (configure_transformations B)"
  proof -
    have "configure_transformations A = A\<lparr>m_transformations := X, m_transform_type := Y\<rparr>"
      by (simp add: configure_transformations_eq X_def Y_def v st se cr(3) B_def init_fields_def Let_def)
    moreover have "configure_transformations B = B\<lparr>m_transformations := X, m_transform_type := Y\<rparr>"
      by (simp add: configure_transformations_eq X_def Y_def B_def init_fields_def Let_def)
    ultimately show ?thesis
      using arg_cong [OF full, of "\<lambda>r. r\<lparr>m_factor := factor_value (B\<lparr>m_transformations := X, m_transform_type := Y\<rparr>)\<rparr>"]
      by (simp add: calculate_factor_value_def fv)
  qed
  then show ?thesis
    by (simp add: set_list_def new_role_stats_def init_list_eq [OF Some] A_def B_def configure_if_pending_eq)
qed

end
