(* ===== verification/Engine.thy ===== *)
theory Engine
  imports RoleStats
begin

text \<open>
  The rating engine as a whole: the properties of the constructed engine
  (its ratings, the transform it selects, its ECDFs and the cost of their
  searches) and the engine's lifecycle.  The lifecycle follows section 3
  of the specification: an engine is built by a constructor,
  \<open>set_list\<close> is its only mutator, and ratings are queries that do not
  change it; a sequence of \<open>set_list\<close> calls is \<open>set_lists\<close>.
\<close>

section \<open>The lifecycle\<close>

fun set_lists :: "role_stats \<Rightarrow> sample list \<Rightarrow> role_stats option" where
  "set_lists s [] = Some s"
| "set_lists s (xs # xss) = (case set_list s xs of None \<Rightarrow> None | Some s' \<Rightarrow> set_lists s' xss)"

section \<open>Properties of the engine\<close>

text \<open>C1: for every engine the constructor builds, the rating is monotone in the value.\<close>

theorem get_rating_monotone:
  assumes "new_role_stats xs t = Some s" and "v \<le> w"
  shows "get_rating s v \<le> get_rating s w"
  using new_role_stats_wf [OF assms(1)] assms(2) by (rule get_rating_mono_wf)

text \<open>
  C18: a sample whose values are all equal validates no transform; the
  engine stays unknown and rates every value 50.
\<close>

theorem degenerate_sample_constant:
  assumes "xs \<noteq> []" and "\<forall>x\<in>set xs. x = c" and "pending t"
  shows "\<exists>s. new_role_stats xs t = Some s \<and> m_transform_type s = TT_UNKNOWN \<and> (\<forall>v. get_rating s v = 50)"
proof -
  obtain s where s: "new_role_stats xs t = Some s" using new_role_stats_exists [OF assms(1)] by blast
  have wf: "role_stats_wf s" using s by (rule new_role_stats_wf)
  have flat: "\<forall>y\<in>set (sorted_data (m_raws s)). y = c" using engine_raws [OF s] assms(2) by simp
  have "m_transform_type s = TT_UNKNOWN"
    using new_role_stats_checked [OF s assms(3)] flat_not_valid [OF wf flat] by (auto simp: transform_checked_def)
  then show ?thesis using s by (auto simp: get_rating_def)
qed

text \<open>
  C7: the transform the constructor settles on never divides by zero: the
  upper min-max transforms have a positive scale, the all-sample min-max
  transforms a median strictly inside the sample's range.
\<close>

theorem chosen_transform_divisions_defined:
  assumes "new_role_stats xs t = Some s" and "pending t"
  shows "divisions_defined s (m_transform_type s)"
  using new_role_stats_wf [OF assms(1)] new_role_stats_checked [OF assms] by (rule checked_divisions_defined)

text \<open>
  C19: for the upper transforms the line through the origin used below a
  positive median meets the rating of the median itself: the rating is
  continuous at the median.
\<close>

theorem factor_continuous_at_median:
  assumes "new_role_stats xs t = Some s" and "is_upper (m_transform_type s)" and "0 < m_raw_median s"
  shows "m_raw_median s * m_factor s = get_rating s (m_raw_median s)"
proof -
  have wf: "role_stats_wf s" using assms(1) by (rule new_role_stats_wf)
  have nt: "m_transform_type s \<noteq> TT_UNKNOWN" "m_transform_type s \<noteq> TT_ECDF_RANK_TRY"
    using assms(2) by auto
  have "m_factor s = factor_value s" using wf by (simp add: role_stats_wf_def)
  then show ?thesis
    using get_rating_concrete [OF nt] factor_value_at_median [OF assms(3)] by simp
qed

text \<open>
  C2: \<open>configure_transformations\<close> implements the abstract selection: it
  selects the first valid candidate of the request's priority list (or
  stays unknown), records the statistics of exactly the candidates it
  tried, and changes no other field.
\<close>

theorem configure_selects_first_valid:
  "m_transform_type (configure_transformations s) =
     (case find (valid_for s) (candidates (m_transform_type s)) of None \<Rightarrow> TT_UNKNOWN | Some t \<Rightarrow> t) \<and>
   m_transformations (configure_transformations s) =
     concat (map (stats_of s) (tried (valid_for s) (candidates (m_transform_type s)))) \<and>
   configure_transformations s\<lparr>m_transformations := [], m_transform_type := TT_UNKNOWN\<rparr>
     = s\<lparr>m_transformations := [], m_transform_type := TT_UNKNOWN\<rparr>"
  by (simp add: configure_transformations_eq selected_def)

text \<open>
  C16: pinning a min-max or multi transform on a sample of equal values
  keeps it although its divisions are undefined: the upper min-max scale
  is 0 and the median equals the minimum and the maximum.
\<close>

theorem pinned_flat_sample_undefined:
  assumes "xs \<noteq> []" and "\<forall>x\<in>set xs. x = c"
    and "t \<in> {TT_MULTI_UPPER, TT_MULTI_ALL, TT_MIN_MAX_UPPER, TT_MIN_MAX_ALL}"
  shows "\<exists>s. new_role_stats xs t = Some s \<and> m_transform_type s = t \<and> \<not> divisions_defined s t"
proof -
  obtain s where s: "new_role_stats xs t = Some s" using new_role_stats_exists [OF assms(1)] by blast
  have ty: "m_transform_type s = t" using new_role_stats_pinned [OF s] assms(3) by auto
  have "\<not> divisions_defined s t"
    using flat_divisions_undefined [OF new_role_stats_wf [OF s]] engine_raws [OF s] assms by auto
  then show ?thesis using s ty by blast
qed

text \<open>
  C32: under \<open>TT_ECDF_RANK_ALL\<close> no value rates below 50, not even one
  below the whole sample: the smoothed rank starts at one half and this
  transform has no factor branch.
\<close>

theorem rank_all_floor_fifty:
  assumes "role_stats_wf s" and "m_transform_type s = TT_ECDF_RANK_ALL"
  shows "50 \<le> get_rating s v"
proof -
  have "ecdf_wf (m_raws s)" using assms(1) by (simp add: role_stats_wf_def)
  then have "50 \<le> rank_value (m_raws s) v \<and> rank_value (m_raws s) v \<le> 100"
    by (rule rank_value_bounds)
  then show ?thesis using assms(2) by (simp add: get_rating_def get_transformations_rating_def clamp_rating_def)
qed

text \<open>
  C6: on the engine's sample the binary searches of the ECDF return the
  number of input values below, and at most, the queried value.
\<close>

theorem engine_searches_count:
  assumes "new_role_stats xs t = Some s"
  shows "lower_bound (sorted_data (m_raws s)) x = count_less xs x \<and>
         upper_bound (sorted_data (m_raws s)) x = count_le xs x"
  using engine_raws [OF assms] by (simp add: lower_bound_eq_count upper_bound_eq_count)

text \<open>
  C21: in a constructed engine both ECDFs (whole sample and upper
  partition) give shares: \<open>0 \<le> fminus x \<le> fplus x \<le> 1\<close>.
\<close>

theorem engine_ecdf_bounds:
  assumes "new_role_stats xs t = Some s"
  shows "0 \<le> fminus (m_raws s) x \<and> fminus (m_raws s) x \<le> fplus (m_raws s) x \<and> fplus (m_raws s) x \<le> 1 \<and>
         0 \<le> fminus (m_upper s) x \<and> fminus (m_upper s) x \<le> fplus (m_upper s) x \<and> fplus (m_upper s) x \<le> 1"
proof -
  have "ecdf_wf (m_raws s)" "ecdf_wf (m_upper s)"
    using new_role_stats_wf [OF assms] by (simp_all add: role_stats_wf_def)
  then show ?thesis using ecdf_bounds_order by blast
qed

text \<open>
  C22: in a constructed engine the whole-sample ECDF gives \<open>fminus = 0\<close>
  at the smallest input value and \<open>fplus = 1\<close> at the largest.
\<close>

theorem engine_ecdf_ends:
  assumes "new_role_stats xs t = Some s"
  shows "fminus (m_raws s) (Min (set xs)) = 0 \<and> fplus (m_raws s) (Max (set xs)) = 1"
proof -
  have ne: "xs \<noteq> []" using engine_raws [OF assms] by blast
  have "count_less xs (Min (set xs)) = 0"
    by (simp add: count_less_def filter_empty_conv not_less)
  moreover have "count_le xs (Max (set xs)) = length xs"
    by (simp add: count_le_def)
  ultimately show ?thesis using engine_fractions [OF assms] ne by simp
qed

text \<open>
  C11: every ECDF query of a constructed engine, \<open>fminus\<close> or
  \<open>fplus\<close>, over the whole sample or the upper partition, is answered by
  a binary search that returns the query's count after at most \<open>k\<close>
  iterations when the sample has fewer than \<open>2 ^ k\<close> values: queries
  are logarithmic in the sample's size.
\<close>

theorem engine_query_log:
  assumes "new_role_stats xs t = Some s" and "length xs < 2 ^ k"
  shows "(\<exists>n. bsearch_it (\<lambda>y. y < x) (sorted_data (m_raws s)) 0 (length (sorted_data (m_raws s))) =
              (lower_bound (sorted_data (m_raws s)) x, n) \<and> n \<le> k) \<and>
         (\<exists>n. bsearch_it (\<lambda>y. y \<le> x) (sorted_data (m_raws s)) 0 (length (sorted_data (m_raws s))) =
              (upper_bound (sorted_data (m_raws s)) x, n) \<and> n \<le> k) \<and>
         (\<exists>n. bsearch_it (\<lambda>y. y < x) (sorted_data (m_upper s)) 0 (length (sorted_data (m_upper s))) =
              (lower_bound (sorted_data (m_upper s)) x, n) \<and> n \<le> k) \<and>
         (\<exists>n. bsearch_it (\<lambda>y. y \<le> x) (sorted_data (m_upper s)) 0 (length (sorted_data (m_upper s))) =
              (upper_bound (sorted_data (m_upper s)) x, n) \<and> n \<le> k)"
proof -
  have wf: "role_stats_wf s" using assms(1) by (rule new_role_stats_wf)
  have r: "length (sorted_data (m_raws s)) < 2 ^ k" using engine_raws [OF assms(1)] assms(2) by simp
  have "length (sorted_data (m_upper s)) \<le> length (sorted_data (m_raws s))"
    using wf by (simp add: role_stats_wf_def)
  then have u: "length (sorted_data (m_upper s)) < 2 ^ k" using r by linarith
  show ?thesis using queries_log [OF r, of x] queries_log [OF u, of x] by blast
qed

section \<open>Properties of the lifecycle\<close>

lemma set_list_None_iff: "set_list s xs = None \<longleftrightarrow> xs = []"
  by (simp add: set_list_def init_list_None_iff)

text \<open>
  C17: the constructor and \<open>set_list\<close> fail exactly on an empty sample;
  the failure is the error value \<^const>\<open>None\<close>.
\<close>

theorem empty_sample_error:
  "(new_role_stats xs t = None \<longleftrightarrow> xs = []) \<and> (set_list s xs = None \<longleftrightarrow> xs = [])"
  by (simp add: new_role_stats_def init_list_None_iff set_list_None_iff)

text \<open>
  C10: a sequence of \<open>set_list\<close> calls fails at the first empty sample;
  otherwise its result depends only on the last sample, and is the engine
  a fresh unpinned constructor builds from it.
\<close>

theorem set_lists_last:
  "set_lists s xss =
     (if xss = [] then Some s else if [] \<in> set xss then None else new_role_stats (last xss) TT_UNKNOWN)"
proof (induction xss arbitrary: s)
  case Nil
  show ?case by simp
next
  case (Cons xs xss)
  show ?case
  proof (cases "xs = []")
    case True
    then show ?thesis using set_list_None_iff [of s "[]"] by simp
  next
    case False
    then obtain s1 where s1: "set_list s xs = Some s1"
      using set_list_None_iff by (cases "set_list s xs") auto
    have "new_role_stats xs TT_UNKNOWN = Some s1" using s1 set_list_new by metis
    then show ?thesis using False s1 Cons.IH [of s1] by auto
  qed
qed

section \<open>Witnesses\<close>

lemma eval_123: "\<exists>s. new_role_stats [1, 2, 3] TT_UNKNOWN = Some s"
  by (simp add: role_stats_eval)

theorem get_rating_monotone_witness:
  "\<exists>s. new_role_stats [1, 2, 3] TT_UNKNOWN = Some s \<and> (1::real) \<le> 2 \<and> get_rating s 1 \<le> get_rating s 2"
proof -
  obtain s where s: "new_role_stats [1, 2, 3] TT_UNKNOWN = Some s" using eval_123 by blast
  have "(1::real) \<le> 2" by simp
  with s show ?thesis using get_rating_monotone [OF s, of 1 2] by blast
qed

theorem degenerate_sample_constant_witness:
  "[5, 5, 5 :: real] \<noteq> [] \<and> set [5, 5, 5 :: real] = {5} \<and>
   (\<exists>s. new_role_stats [5, 5, 5] TT_UNKNOWN = Some s \<and> m_transform_type s = TT_UNKNOWN \<and> (\<forall>v. get_rating s v = 50))"
  using degenerate_sample_constant [of "[5, 5, 5]" 5 TT_UNKNOWN] by simp

theorem chosen_transform_divisions_defined_witness:
  "\<exists>s. new_role_stats [1, 2, 3] TT_UNKNOWN = Some s \<and> pending TT_UNKNOWN \<and> divisions_defined s (m_transform_type s)"
proof -
  obtain s where s: "new_role_stats [1, 2, 3] TT_UNKNOWN = Some s" using eval_123 by blast
  have p: "pending TT_UNKNOWN" by simp
  show ?thesis using s p chosen_transform_divisions_defined [OF s p] by blast
qed

theorem factor_continuous_at_median_witness:
  "\<exists>s. new_role_stats [1, 2, 3] TT_UNKNOWN = Some s \<and> is_upper (m_transform_type s) \<and>
       0 < m_raw_median s \<and> m_raw_median s * m_factor s = get_rating s (m_raw_median s)"
proof -
  obtain s where s: "new_role_stats [1, 2, 3] TT_UNKNOWN = Some s" using eval_123 by blast
  have "m_transform_type s = TT_ECDF_RANK_UPPER \<and> m_raw_median s = 2"
    using s by (simp add: role_stats_eval) (erule subst, simp)
  then have h: "is_upper (m_transform_type s)" "0 < m_raw_median s" by simp_all
  show ?thesis using s h factor_continuous_at_median [OF s h] by blast
qed

theorem rank_all_floor_fifty_witness:
  "\<exists>s. new_role_stats [1, 2, 2] TT_UNKNOWN = Some s \<and> role_stats_wf s \<and>
       m_transform_type s = TT_ECDF_RANK_ALL \<and> 50 \<le> get_rating s 0"
proof -
  obtain s where s: "new_role_stats [1, 2, 2] TT_UNKNOWN = Some s"
    by (simp add: role_stats_eval)
  have wf: "role_stats_wf s" using s by (rule new_role_stats_wf)
  have t: "m_transform_type s = TT_ECDF_RANK_ALL"
    using s by (simp add: role_stats_eval) (erule subst, simp)
  show ?thesis using s wf t rank_all_floor_fifty [OF wf t, of 0] by blast
qed

theorem pinned_flat_sample_undefined_witness:
  "[5, 5, 5 :: real] \<noteq> [] \<and> set [5, 5, 5 :: real] = {5} \<and>
   TT_MIN_MAX_ALL \<in> {TT_MULTI_UPPER, TT_MULTI_ALL, TT_MIN_MAX_UPPER, TT_MIN_MAX_ALL} \<and>
   (\<exists>s. new_role_stats [5, 5, 5] TT_MIN_MAX_ALL = Some s \<and> m_transform_type s = TT_MIN_MAX_ALL \<and>
        \<not> divisions_defined s TT_MIN_MAX_ALL)"
  using pinned_flat_sample_undefined [of "[5, 5, 5]" 5 TT_MIN_MAX_ALL] by simp

theorem engine_searches_count_witness:
  "\<exists>s. new_role_stats [1, 2, 2, 3] TT_UNKNOWN = Some s \<and>
       lower_bound (sorted_data (m_raws s)) 2 = 1 \<and> upper_bound (sorted_data (m_raws s)) 2 = 3"
proof -
  obtain s where s: "new_role_stats [1, 2, 2, 3] TT_UNKNOWN = Some s"
    by (simp add: role_stats_eval)
  then show ?thesis using engine_searches_count [OF s, of 2] by (simp add: count_less_def count_le_def)
qed

theorem engine_ecdf_bounds_witness:
  "\<exists>s. new_role_stats [1, 2, 3] TT_UNKNOWN = Some s \<and>
       0 \<le> fminus (m_raws s) 2 \<and> fminus (m_raws s) 2 \<le> fplus (m_raws s) 2 \<and> fplus (m_raws s) 2 \<le> 1"
proof -
  obtain s where s: "new_role_stats [1, 2, 3] TT_UNKNOWN = Some s" using eval_123 by blast
  then show ?thesis using engine_ecdf_bounds [OF s, of 2] by blast
qed

theorem engine_ecdf_ends_witness:
  "\<exists>s. new_role_stats [3, 1, 2] TT_UNKNOWN = Some s \<and>
       fminus (m_raws s) 1 = 0 \<and> fplus (m_raws s) 3 = 1"
proof -
  obtain s where s: "new_role_stats [3, 1, 2] TT_UNKNOWN = Some s"
    by (simp add: role_stats_eval)
  then show ?thesis using engine_ecdf_ends [OF s] by simp
qed

theorem engine_query_log_witness:
  "\<exists>s. new_role_stats [1, 2, 3] TT_UNKNOWN = Some s \<and> length [1, 2, 3 :: real] < 2 ^ 2 \<and>
       (\<exists>n. bsearch_it (\<lambda>y. y < 2) (sorted_data (m_raws s)) 0 (length (sorted_data (m_raws s))) =
              (lower_bound (sorted_data (m_raws s)) 2, n) \<and> n \<le> 2)"
proof -
  obtain s where s: "new_role_stats [1, 2, 3] TT_UNKNOWN = Some s" using eval_123 by blast
  have l: "length [1, 2, 3 :: real] < 2 ^ 2" by simp
  show ?thesis using s l engine_query_log [OF s l, of 2] by blast
qed

end
