(* ===== verification/Preference.thy ===== *)
theory Preference
  imports Prelude
begin

text \<open>
  Preferences and their matching against a role's preferences
  (\<open>src/src/preference.cpp\<close>).  A \<open>Preference\<close> is a record of its
  category, item type, name, material flags (a \<open>FlagArray\<close>, modelled as
  the set of its raised bits), special flags (a \<open>QList<int>\<close>) and the
  exact-match switch.  The enumeration constants the code uses
  (\<open>PREF_TYPES\<close>, \<open>ITEM_TYPE\<close>, the race, caste, plant and weapon flags)
  are declared in headers that are not part of the sources; they are the
  fields of \<open>pref_codes\<close>, so that every theorem holds for any values
  the headers give them.  The game objects the code reads (\<open>Race\<close>,
  \<open>Plant\<close>, \<open>ItemWeaponSubtype\<close>, \<open>Dwarf\<close>) are records of the fields
  the code reads; a null pointer is \<^const>\<open>None\<close>.  The \<open>pref_aspect\<close>
  pointer is an address into an explicit store of \<open>RoleAspect\<close>
  objects, each with its \<open>QObject\<close> parent: the constructors allocate
  one, the copy constructor shares it and the empty destructor frees
  nothing.
\<close>

record pref_codes =
  c_LIKES_NONE :: int
  c_NONE :: int
  c_WEAPON :: int
  c_ITEMS_WEAPON :: int
  c_ITEMS_WEAPON_RANGED :: int
  c_HATEABLE :: int
  c_TRAINABLE :: int
  c_SHEARABLE :: int
  c_FISHABLE :: int
  c_BUTCHERABLE :: int
  c_MILKABLE :: int
  c_HAS_EXTRACTS :: int
  c_VERMIN_FISH :: int
  c_P_SAPLING :: int
  c_P_TREE :: int
  c_P_DRINK :: int
  c_P_CROP :: int
  c_P_MILL :: int
  c_P_HAS_EXTRACTS :: int

text \<open>
  Objects of the Qt object tree are addresses: \<open>qobject\<close> for a parent,
  \<open>aspect_ref\<close> for the \<open>RoleAspect\<close> a preference points to.
\<close>

type_synonym qobject = nat
type_synonym aspect_ref = nat

record preference =
  m_name :: string
  m_pType :: int
  m_iType :: int
  m_material_flags :: "int set"
  m_special_flags :: "int list"
  m_exact_match :: bool
  pref_aspect :: aspect_ref
  pref_parent :: "qobject option"

record race =
  race_flags :: "int set"
  caste_flags :: "int set"

record plant =
  plant_flags :: "int set"

record weapon_subtype =
  is_ranged :: bool
  multi_grasp :: int

record dwarf =
  body_size :: int
  find_weapon_def :: "string \<Rightarrow> weapon_subtype option"

subsection \<open>Constructors\<close>

text \<open>
  The three constructors, with the \<open>QObject\<close> parent and the address of
  the \<open>RoleAspect\<close> the initialiser \<open>pref_aspect(new RoleAspect(parent))\<close>
  allocates; \<open>construct_preference\<close> below allocates it in the store.
\<close>

definition new_preference :: "pref_codes \<Rightarrow> qobject option \<Rightarrow> aspect_ref \<Rightarrow> preference" where
  "new_preference c parent a =
     \<lparr>m_name = [], m_pType = c_LIKES_NONE c, m_iType = c_NONE c,
      m_material_flags = {}, m_special_flags = [], m_exact_match = False,
      pref_aspect = a, pref_parent = parent\<rparr>"

definition new_preference_item :: "int \<Rightarrow> int \<Rightarrow> qobject option \<Rightarrow> aspect_ref \<Rightarrow> preference" where
  "new_preference_item category iType parent a =
     \<lparr>m_name = [], m_pType = category, m_iType = iType,
      m_material_flags = {}, m_special_flags = [], m_exact_match = False,
      pref_aspect = a, pref_parent = parent\<rparr>"

definition new_preference_named :: "pref_codes \<Rightarrow> int \<Rightarrow> string \<Rightarrow> qobject option \<Rightarrow> aspect_ref \<Rightarrow> preference" where
  "new_preference_named c category name parent a =
     \<lparr>m_name = name, m_pType = category, m_iType = c_NONE c,
      m_material_flags = {}, m_special_flags = [], m_exact_match = False,
      pref_aspect = a, pref_parent = parent\<rparr>"

text \<open>The copy constructor (lines 67-77) copies every field, the aspect pointer included.\<close>

definition copy_preference :: "preference \<Rightarrow> preference" where
  "copy_preference p =
     \<lparr>m_name = m_name p, m_pType = m_pType p, m_iType = m_iType p,
      m_material_flags = m_material_flags p, m_special_flags = m_special_flags p,
      m_exact_match = m_exact_match p, pref_aspect = pref_aspect p, pref_parent = pref_parent p\<rparr>"

subsection \<open>The object store\<close>

text \<open>
  The \<open>RoleAspect\<close> objects: for each address, not allocated
  (\<^const>\<open>None\<close>), or allocated with its parent, which deletes it
  (\<open>Some (Some q)\<close>), or with no parent (\<open>Some None\<close>), so that only
  an explicit \<open>delete\<close> frees it.  \<open>new\<close> takes the next free address.
\<close>

record pref_store =
  aspect_owner :: "aspect_ref \<Rightarrow> qobject option option"
  next_aspect :: aspect_ref

definition alloc_aspect :: "qobject option \<Rightarrow> pref_store \<Rightarrow> aspect_ref \<times> pref_store" where
  "alloc_aspect parent st =
     (next_aspect st,
      st\<lparr>aspect_owner := (aspect_owner st)(next_aspect st := Some parent),
         next_aspect := Suc (next_aspect st)\<rparr>)"

text \<open>The overloads of the constructor, and a construction with its allocation.\<close>

datatype pref_ctor =
    Ctor_default
  | Ctor_item int int
  | Ctor_named int string

fun ctor_fields :: "pref_codes \<Rightarrow> pref_ctor \<Rightarrow> qobject option \<Rightarrow> aspect_ref \<Rightarrow> preference" where
  "ctor_fields c Ctor_default parent a = new_preference c parent a"
| "ctor_fields c (Ctor_item category iType) parent a = new_preference_item category iType parent a"
| "ctor_fields c (Ctor_named category name) parent a = new_preference_named c category name parent a"

definition construct_preference ::
    "pref_codes \<Rightarrow> pref_ctor \<Rightarrow> qobject option \<Rightarrow> pref_store \<Rightarrow> preference \<times> pref_store" where
  "construct_preference c k parent st =
     (let (a, st') = alloc_aspect parent st in (ctor_fields c k parent a, st'))"

text \<open>The destructor (lines 79-80) is empty: it frees nothing.\<close>

definition destroy_preference :: "preference \<Rightarrow> pref_store \<Rightarrow> pref_store" where
  "destroy_preference p st = st"

subsection \<open>Flags\<close>

definition add_flag :: "int \<Rightarrow> preference \<Rightarrow> preference" where
  "add_flag flag p =
     (if flag \<in> set (m_special_flags p) then p
      else p\<lparr>m_special_flags := m_special_flags p @ [flag]\<rparr>)"

text \<open>\<open>QString::compare(a, b, Qt::CaseInsensitive) == 0\<close>, on ASCII letters.\<close>

definition lower_char :: "char \<Rightarrow> char" where
  "lower_char ch =
     (let n = (of_char ch :: nat) in if 65 \<le> n \<and> n \<le> 90 then char_of (n + 32) else ch)"

definition ci_equal :: "string \<Rightarrow> string \<Rightarrow> bool" where
  "ci_equal a b \<longleftrightarrow> map lower_char a = map lower_char b"

definition bool_int :: "bool \<Rightarrow> int" where
  "bool_int b = (if b then 1 else 0)"

subsection \<open>Matching\<close>

text \<open>The loop over the role's special flags that looks for a shared flag (lines 107-111).\<close>

fun special_flag_scan :: "int list \<Rightarrow> int list \<Rightarrow> int \<Rightarrow> int" where
  "special_flag_scan own [] result = result"
| "special_flag_scan own (f # fs) result =
     special_flag_scan own fs (if f \<in> set own then 1 else result)"

text \<open>The loop that fails on the first role flag the material lacks (lines 119-124).\<close>

fun material_flag_scan :: "int set \<Rightarrow> int list \<Rightarrow> int \<Rightarrow> int" where
  "material_flag_scan mat [] result = result"
| "material_flag_scan mat (f # fs) result =
     (if f \<notin> mat then 0 else material_flag_scan mat fs result)"

text \<open>Lines 97-130: the match before the dwarf is consulted.\<close>

definition match_flags :: "preference \<Rightarrow> preference \<Rightarrow> int \<Rightarrow> int" where
  "match_flags self role result =
     (if m_exact_match role then bool_int (ci_equal (m_name role) (m_name self))
      else
        (let r1 = (if m_special_flags role \<noteq> [] then
                     (let r = (if result = 1 then 0 else result) in
                      if m_special_flags self \<noteq> [] then special_flag_scan (m_special_flags self) (m_special_flags role) r
                      else r)
                   else result);
             r2 = (if m_material_flags self \<noteq> {} then
                     material_flag_scan (m_material_flags self) (m_special_flags role) (if r1 = 0 then 1 else r1)
                   else r1)
         in if r2 \<le> 0 then bool_int (ci_equal (m_name role) (m_name self)) else r2))"

text \<open>Lines 132-141: a weapon match needs the dwarf to be able to wield the weapon.\<close>

definition weapon_check :: "pref_codes \<Rightarrow> preference \<Rightarrow> preference \<Rightarrow> dwarf \<Rightarrow> int \<Rightarrow> int" where
  "weapon_check c self role d result =
     (if 0 < result \<and>
         (m_iType role = c_WEAPON c \<or>
          (m_special_flags role \<noteq> [] \<and>
           (c_ITEMS_WEAPON c \<in> set (m_special_flags self) \<or> c_ITEMS_WEAPON_RANGED c \<in> set (m_special_flags self))))
      then (case find_weapon_def d (m_name self) of
              None \<Rightarrow> 0
            | Some w \<Rightarrow> if body_size d < multi_grasp w then 0 else result)
      else result)"

definition matches :: "pref_codes \<Rightarrow> preference \<Rightarrow> preference \<Rightarrow> dwarf option \<Rightarrow> int" where
  "matches c self role d =
     (if m_pType self = m_pType role then
        (let r0 = (if m_iType self \<noteq> m_iType role then 0 else 1);
             r = match_flags self role r0
         in case d of None \<Rightarrow> r | Some dw \<Rightarrow> weapon_check c self role dw r)
      else 0)"

subsection \<open>Flags from the game objects\<close>

definition set_pref_flags_race :: "pref_codes \<Rightarrow> race option \<Rightarrow> preference \<Rightarrow> preference" where
  "set_pref_flags_race c r p =
     (case r of
        None \<Rightarrow> p
      | Some rc \<Rightarrow>
          (let p1 = (if c_HATEABLE c \<in> race_flags rc then add_flag (c_HATEABLE c) p else p);
               p2 = (if c_TRAINABLE c \<in> caste_flags rc then add_flag (c_TRAINABLE c) p1 else p1);
               p3 = (if c_SHEARABLE c \<in> caste_flags rc then add_flag (c_SHEARABLE c) p2 else p2);
               p4 = (if c_FISHABLE c \<in> caste_flags rc then add_flag (c_FISHABLE c) p3 else p3);
               p5 = (if c_BUTCHERABLE c \<in> caste_flags rc then add_flag (c_BUTCHERABLE c) p4 else p4);
               p6 = (if c_MILKABLE c \<in> caste_flags rc then add_flag (c_MILKABLE c) p5 else p5)
           in if c_HAS_EXTRACTS c \<in> caste_flags rc then
                (if c_FISHABLE c \<in> caste_flags rc then add_flag (c_VERMIN_FISH c) p6
                 else add_flag (c_HAS_EXTRACTS c) p6)
              else p6))
     \<lparr>m_exact_match := True\<rparr>"

definition set_pref_flags_plant :: "pref_codes \<Rightarrow> plant option \<Rightarrow> preference \<Rightarrow> preference" where
  "set_pref_flags_plant c pl p =
     (case pl of
        None \<Rightarrow> p
      | Some pt \<Rightarrow>
          (if c_P_SAPLING c \<notin> plant_flags pt \<and> c_P_TREE c \<notin> plant_flags pt then
             (let p1 = (if c_P_DRINK c \<in> plant_flags pt then add_flag (c_P_DRINK c) p else p);
                  p2 = (if c_P_CROP c \<in> plant_flags pt then add_flag (c_P_CROP c) p1 else p1);
                  p3 = (if c_P_MILL c \<in> plant_flags pt then add_flag (c_P_MILL c) p2 else p2)
              in if c_P_HAS_EXTRACTS c \<in> plant_flags pt then add_flag (c_P_HAS_EXTRACTS c) p3 else p3)
           else p))
     \<lparr>m_exact_match := True\<rparr>"

definition set_pref_flags_weapon :: "pref_codes \<Rightarrow> weapon_subtype option \<Rightarrow> preference \<Rightarrow> preference" where
  "set_pref_flags_weapon c w p =
     (case w of
        None \<Rightarrow> p
      | Some ws \<Rightarrow> if is_ranged ws then add_flag (c_ITEMS_WEAPON_RANGED c) p else add_flag (c_ITEMS_WEAPON c) p)
     \<lparr>m_exact_match := True\<rparr>"

subsection \<open>Specification-level definitions\<close>

text \<open>
  \<open>example_codes\<close> is one assignment of distinct values to the enumeration
  constants, used by the witnesses; \<open>race_flag_set\<close> is the set of flags
  \<open>set_pref_flags(Race* )\<close> is meant to add, stated as a set.
\<close>

definition example_codes :: pref_codes where
  "example_codes =
     \<lparr>c_LIKES_NONE = -1, c_NONE = -1, c_WEAPON = 24, c_ITEMS_WEAPON = 200, c_ITEMS_WEAPON_RANGED = 201,
      c_HATEABLE = 1, c_TRAINABLE = 2, c_SHEARABLE = 3, c_FISHABLE = 4, c_BUTCHERABLE = 5,
      c_MILKABLE = 6, c_HAS_EXTRACTS = 7, c_VERMIN_FISH = 8, c_P_SAPLING = 9, c_P_TREE = 10,
      c_P_DRINK = 11, c_P_CROP = 12, c_P_MILL = 13, c_P_HAS_EXTRACTS = 14\<rparr>"

definition race_flag_set :: "pref_codes \<Rightarrow> race \<Rightarrow> int set" where
  "race_flag_set c rc =
     (if c_HATEABLE c \<in> race_flags rc then {c_HATEABLE c} else {}) \<union>
     (set [c_TRAINABLE c, c_SHEARABLE c, c_FISHABLE c, c_BUTCHERABLE c, c_MILKABLE c] \<inter> caste_flags rc) \<union>
     (if c_HAS_EXTRACTS c \<in> caste_flags rc
      then {if c_FISHABLE c \<in> caste_flags rc then c_VERMIN_FISH c else c_HAS_EXTRACTS c}
      else {})"

text \<open>
  The decision \<open>matches\<close> implements, stated as a rule: same category;
  then the names for an exact-match role, otherwise the flags or the
  names; and, when a dwarf is given and the preference concerns weapons,
  a dwarf able to wield the weapon.  With material flags the flags agree
  when the material has every flag the role asks for; otherwise a shared
  special flag, or, when the role asks for none, the same item type.
\<close>

definition flags_match :: "preference \<Rightarrow> preference \<Rightarrow> bool" where
  "flags_match self role \<longleftrightarrow>
     (if m_material_flags self \<noteq> {} then set (m_special_flags role) \<subseteq> m_material_flags self
      else if m_special_flags role \<noteq> [] then (\<exists>f\<in>set (m_special_flags role). f \<in> set (m_special_flags self))
      else m_iType self = m_iType role)"

definition weapon_relevant :: "pref_codes \<Rightarrow> preference \<Rightarrow> preference \<Rightarrow> bool" where
  "weapon_relevant c self role \<longleftrightarrow>
     m_iType role = c_WEAPON c \<or>
     (m_special_flags role \<noteq> [] \<and>
      (c_ITEMS_WEAPON c \<in> set (m_special_flags self) \<or> c_ITEMS_WEAPON_RANGED c \<in> set (m_special_flags self)))"

definition can_wield :: "dwarf \<Rightarrow> string \<Rightarrow> bool" where
  "can_wield d name \<longleftrightarrow>
     (case find_weapon_def d name of None \<Rightarrow> False | Some w \<Rightarrow> multi_grasp w \<le> body_size d)"

definition match_spec :: "pref_codes \<Rightarrow> preference \<Rightarrow> preference \<Rightarrow> dwarf option \<Rightarrow> bool" where
  "match_spec c self role d \<longleftrightarrow>
     m_pType self = m_pType role \<and>
     (if m_exact_match role then ci_equal (m_name role) (m_name self)
      else flags_match self role \<or> ci_equal (m_name role) (m_name self)) \<and>
     (case d of None \<Rightarrow> True | Some dw \<Rightarrow> \<not> weapon_relevant c self role \<or> can_wield dw (m_name self))"

text \<open>
  The store is well formed when no address at or above the next free one
  is allocated.  An aspect is leaked when it is allocated with no parent:
  nothing in the program deletes it.
\<close>

definition store_wf :: "pref_store \<Rightarrow> bool" where
  "store_wf st \<longleftrightarrow> (\<forall>a. next_aspect st \<le> a \<longrightarrow> aspect_owner st a = None)"

definition leaked :: "pref_store \<Rightarrow> aspect_ref \<Rightarrow> bool" where
  "leaked st a \<longleftrightarrow> aspect_owner st a = Some None"

definition empty_store :: pref_store where
  "empty_store = \<lparr>aspect_owner = (\<lambda>a. None), next_aspect = 0\<rparr>"

section \<open>Properties\<close>

lemma special_flag_scan_eq:
  "special_flag_scan own fs r = (if \<exists>f\<in>set fs. f \<in> set own then 1 else r)"
  by (induction fs arbitrary: r) auto

lemma material_flag_scan_eq:
  "material_flag_scan mat fs r = (if \<exists>f\<in>set fs. f \<notin> mat then 0 else r)"
  by (induction fs arbitrary: r) auto

lemma bool_int_cases: "bool_int b = 0 \<or> bool_int b = 1"
  by (simp add: bool_int_def)

lemmas scan_simps = special_flag_scan_eq material_flag_scan_eq

lemma match_flags_bool:
  "r = 0 \<or> r = 1 \<Longrightarrow> match_flags self role r = 0 \<or> match_flags self role r = 1"
  by (auto simp: match_flags_def scan_simps Let_def bool_int_def)

lemma weapon_check_cases:
  "weapon_check c self role d r = 0 \<or> weapon_check c self role d r = r"
  by (auto simp: weapon_check_def split: option.split)

lemma matches_None_eq:
  "m_pType self = m_pType role \<Longrightarrow>
   matches c self role None = match_flags self role (if m_iType self \<noteq> m_iType role then 0 else 1)"
  by (simp add: matches_def)

text \<open>
  C3: \<open>matches\<close> returns 0 or 1 on every input, with or
  without a dwarf.
\<close>

theorem matches_result_bool: "matches c self role d = 0 \<or> matches c self role d = 1"
proof (cases "m_pType self = m_pType role")
  case True
  let ?r = "match_flags self role (if m_iType self \<noteq> m_iType role then 0 else 1)"
  have r: "?r = 0 \<or> ?r = 1" by (rule match_flags_bool) simp
  show ?thesis
  proof (cases d)
    case None
    then show ?thesis using True r by (simp add: matches_def)
  next
    case (Some dw)
    then show ?thesis using True r weapon_check_cases [of c self role dw ?r]
      by (auto simp: matches_def)
  qed
qed (simp add: matches_def)

text \<open>
  Preferences of different categories never match.
\<close>

lemma matches_category_mismatch:
  "m_pType self \<noteq> m_pType role \<Longrightarrow> matches c self role d = 0"
  by (simp add: matches_def)

text \<open>
  For an exact-match role preference of the same category, the
  match is the case-insensitive equality of the names.
\<close>

lemma matches_exact_match:
  assumes "m_pType self = m_pType role" and "m_exact_match role"
  shows "matches c self role None = bool_int (ci_equal (m_name role) (m_name self))"
  using assms by (simp add: matches_def match_flags_def)

text \<open>
  When the role asks for special flags and the dwarf's preference
  has no material flags, the match holds exactly when the two share a
  special flag or their names are equal up to case.
\<close>

lemma matches_shared_special_flag:
  assumes "m_pType self = m_pType role" and "\<not> m_exact_match role"
    and "m_special_flags role \<noteq> []" and "m_material_flags self = {}"
  shows "matches c self role None =
           bool_int ((\<exists>f\<in>set (m_special_flags role). f \<in> set (m_special_flags self))
                     \<or> ci_equal (m_name role) (m_name self))"
  using assms by (auto simp: matches_def match_flags_def scan_simps bool_int_def Let_def)

text \<open>
  With no special flags asked and no material flags, the match
  holds exactly when the item types agree or the names are equal up to
  case.
\<close>

lemma matches_plain:
  assumes "m_pType self = m_pType role" and "\<not> m_exact_match role"
    and "m_special_flags role = []" and "m_material_flags self = {}"
  shows "matches c self role None = bool_int (m_iType self = m_iType role \<or> ci_equal (m_name role) (m_name self))"
  using assms by (auto simp: matches_def match_flags_def bool_int_def)

text \<open>
  C12: when the item types differ, the role asks for no special flag and
  the dwarf's preference has material flags, the match still succeeds:
  the material branch turns the type mismatch into a match.
\<close>

theorem matches_type_mismatch_overridden:
  assumes "m_pType self = m_pType role" and "m_iType self \<noteq> m_iType role"
    and "\<not> m_exact_match role" and "m_special_flags role = []" and "m_material_flags self \<noteq> {}"
  shows "matches c self role None = 1"
  using assms by (simp add: matches_def match_flags_def Let_def)

text \<open>
  Consulting the dwarf either leaves the match unchanged or turns
  it into no match.
\<close>

lemma matches_dwarf_only_lowers:
  "matches c self role (Some d) = 0 \<or> matches c self role (Some d) = matches c self role None"
  using weapon_check_cases by (simp add: matches_def Let_def)

text \<open>
  C8: a match of a weapon preference for a given dwarf implies that the
  game knows the weapon and that the dwarf's body is at least the
  weapon's multi-grasp size.
\<close>

theorem matches_weapon_wieldable:
  assumes "matches c self role (Some d) = 1" and "m_iType role = c_WEAPON c"
  shows "\<exists>w. find_weapon_def d (m_name self) = Some w \<and> multi_grasp w \<le> body_size d"
  using assms
  by (auto simp: matches_def weapon_check_def Let_def split: if_splits option.splits)

text \<open>
  \<open>add_flag\<close> adds the flag to the set of special flags
  and keeps the list free of duplicates.
\<close>

lemma add_flag_keeps_distinct:
  assumes "distinct (m_special_flags p)"
  shows "distinct (m_special_flags (add_flag f p)) \<and>
         set (m_special_flags (add_flag f p)) = insert f (set (m_special_flags p))"
  using assms by (auto simp: add_flag_def)

lemma add_flag_set [simp]: "set (m_special_flags (add_flag f p)) = insert f (set (m_special_flags p))"
  by (auto simp: add_flag_def)

lemma add_flag_distinct [simp]: "distinct (m_special_flags (add_flag f p)) = distinct (m_special_flags p)"
  by (auto simp: add_flag_def)

lemma add_flag_other [simp]:
  "m_name (add_flag f p) = m_name p" "m_pType (add_flag f p) = m_pType p"
  "m_iType (add_flag f p) = m_iType p" "m_material_flags (add_flag f p) = m_material_flags p"
  "m_exact_match (add_flag f p) = m_exact_match p"
  by (simp_all add: add_flag_def)

text \<open>
  Flagging a preference with a weapon subtype adds the ranged or
  the melee weapon flag, switches exact matching on and keeps the name.
\<close>

lemma set_pref_flags_weapon_flags:
  "set (m_special_flags (set_pref_flags_weapon c (Some w) p)) =
     insert (if is_ranged w then c_ITEMS_WEAPON_RANGED c else c_ITEMS_WEAPON c) (set (m_special_flags p)) \<and>
   m_exact_match (set_pref_flags_weapon c (Some w) p) \<and>
   m_name (set_pref_flags_weapon c (Some w) p) = m_name p"
  by (simp add: set_pref_flags_weapon_def)

text \<open>
  C27: flagging a preference with a plant adds exactly the plant's drink,
  crop, mill and extract flags, none for a sapling or a tree, never a
  duplicate; a null plant adds nothing; exact matching is switched on in
  every case.
\<close>

theorem set_pref_flags_plant_flags:
  "set (m_special_flags (set_pref_flags_plant c (Some pt) p)) =
     set (m_special_flags p) \<union>
     (if c_P_SAPLING c \<in> plant_flags pt \<or> c_P_TREE c \<in> plant_flags pt then {}
      else plant_flags pt \<inter> {c_P_DRINK c, c_P_CROP c, c_P_MILL c, c_P_HAS_EXTRACTS c}) \<and>
   (distinct (m_special_flags (set_pref_flags_plant c (Some pt) p)) \<longleftrightarrow> distinct (m_special_flags p)) \<and>
   m_exact_match (set_pref_flags_plant c (Some pt) p) \<and>
   set_pref_flags_plant c None p = p\<lparr>m_exact_match := True\<rparr>"
  by (auto simp: set_pref_flags_plant_def Let_def)

text \<open>
  C26: flagging a preference with a race adds exactly the race's flags
  among the hateable, caste and extract flags, never a duplicate, and
  switches exact matching on.
\<close>

theorem set_pref_flags_race_flags:
  "set (m_special_flags (set_pref_flags_race c (Some rc) p)) = set (m_special_flags p) \<union> race_flag_set c rc \<and>
   (distinct (m_special_flags (set_pref_flags_race c (Some rc) p)) \<longleftrightarrow> distinct (m_special_flags p)) \<and>
   m_exact_match (set_pref_flags_race c (Some rc) p)"
  by (auto simp: set_pref_flags_race_def race_flag_set_def Let_def)

lemma match_flags_spec:
  assumes "r = bool_int (m_iType self = m_iType role)"
  shows "match_flags self role r =
           bool_int (if m_exact_match role then ci_equal (m_name role) (m_name self)
                     else flags_match self role \<or> ci_equal (m_name role) (m_name self))"
  using assms by (auto simp: match_flags_def flags_match_def scan_simps Let_def bool_int_def)

lemma weapon_check_spec:
  "weapon_check c self role dw (bool_int b) =
     bool_int (b \<and> (\<not> weapon_relevant c self role \<or> can_wield dw (m_name self)))"
  by (auto simp: weapon_check_def weapon_relevant_def can_wield_def bool_int_def split: option.split)

text \<open>
  C25: \<open>matches\<close> refines its decision rule: it returns 1 exactly when
  \<open>match_spec\<close> holds and 0 otherwise.
\<close>

theorem matches_refines_spec: "matches c self role d = bool_int (match_spec c self role d)"
proof (cases "m_pType self = m_pType role")
  case False
  then show ?thesis by (simp add: matches_def match_spec_def bool_int_def)
next
  case True
  have r0: "(if m_iType self \<noteq> m_iType role then 0 else 1) = bool_int (m_iType self = m_iType role)"
    by (simp add: bool_int_def)
  show ?thesis
    using True match_flags_spec [OF r0]
    by (cases d) (simp_all add: matches_def match_spec_def weapon_check_spec r0 del: One_nat_def)
qed

subsection \<open>The aspect pointers\<close>

lemma copy_preference_eq [simp]: "copy_preference p = p"
  by (simp add: copy_preference_def)

lemma ctor_fields_aspect [simp]:
  "pref_aspect (ctor_fields c k parent a) = a" "pref_parent (ctor_fields c k parent a) = parent"
  by (cases k; simp add: new_preference_def new_preference_item_def new_preference_named_def)+

lemma construct_preference_eq:
  "construct_preference c k parent st =
     (ctor_fields c k parent (next_aspect st),
      st\<lparr>aspect_owner := (aspect_owner st)(next_aspect st := Some parent), next_aspect := Suc (next_aspect st)\<rparr>)"
  by (simp add: construct_preference_def alloc_aspect_def)

lemma construct_preference_wf:
  assumes "store_wf st" and "construct_preference c k parent st = (p, st')"
  shows "store_wf st' \<and> pref_aspect p = next_aspect st \<and> aspect_owner st (pref_aspect p) = None \<and>
         aspect_owner st' = (aspect_owner st)(pref_aspect p := Some parent) \<and> next_aspect st' = Suc (next_aspect st)"
  using assms by (auto simp: construct_preference_eq store_wf_def)

lemma empty_store_wf: "store_wf empty_store"
  by (simp add: store_wf_def empty_store_def)

text \<open>
  C23: two preferences constructed one after the other point to distinct
  \<open>RoleAspect\<close> objects, each allocated with its constructor's parent,
  and the store stays well formed; a copy points to the same object as
  its original.
\<close>

theorem construct_distinct_aspects:
  assumes "store_wf st"
    and "construct_preference c k1 par1 st = (p1, st1)"
    and "construct_preference c k2 par2 st1 = (p2, st2)"
  shows "pref_aspect p1 \<noteq> pref_aspect p2 \<and> store_wf st2 \<and>
         aspect_owner st2 (pref_aspect p1) = Some par1 \<and> aspect_owner st2 (pref_aspect p2) = Some par2 \<and>
         pref_aspect (copy_preference p1) = pref_aspect p1"
proof -
  have 1: "store_wf st1 \<and> pref_aspect p1 = next_aspect st \<and>
           aspect_owner st1 = (aspect_owner st)(pref_aspect p1 := Some par1) \<and> next_aspect st1 = Suc (next_aspect st)"
    using construct_preference_wf [OF assms(1,2)] by blast
  then have 2: "store_wf st2 \<and> pref_aspect p2 = next_aspect st1 \<and>
           aspect_owner st2 = (aspect_owner st1)(pref_aspect p2 := Some par2)"
    using construct_preference_wf [OF _ assms(3)] by blast
  show ?thesis using 1 2 by simp
qed

text \<open>
  C33: the \<open>RoleAspect\<close> of a preference constructed without a parent
  is never freed: after the preference and its copy are destroyed it is
  still allocated, and no \<open>QObject\<close> owns it.
\<close>

theorem parentless_aspect_leaks:
  assumes "construct_preference c k None st = (p, st')"
  shows "leaked (destroy_preference (copy_preference p) (destroy_preference p st')) (pref_aspect p)"
  using assms by (auto simp: construct_preference_eq destroy_preference_def leaked_def)

subsection \<open>Witnesses\<close>

lemmas pref_eval = matches_def match_flags_def weapon_check_def ci_equal_def lower_char_def
  bool_int_def new_preference_named_def new_preference_item_def example_codes_def Let_def

theorem matches_type_mismatch_overridden_witness:
  "let self = (new_preference_item 3 7 None 0)\<lparr>m_material_flags := {4}\<rparr>; role = new_preference_item 3 8 None 0
   in m_pType self = m_pType role \<and> m_iType self \<noteq> m_iType role \<and> \<not> m_exact_match role \<and>
      m_special_flags role = [] \<and> m_material_flags self \<noteq> {} \<and> matches example_codes self role None = 1"
proof -
  let ?self = "(new_preference_item 3 7 None 0)\<lparr>m_material_flags := {4}\<rparr>"
  let ?role = "new_preference_item 3 8 None 0"
  have h: "m_pType ?self = m_pType ?role" "m_iType ?self \<noteq> m_iType ?role" "\<not> m_exact_match ?role"
    "m_special_flags ?role = []" "m_material_flags ?self \<noteq> {}"
    by (simp_all add: new_preference_item_def)
  show ?thesis using h matches_type_mismatch_overridden [OF h, of example_codes] by simp
qed

theorem matches_weapon_wieldable_witness:
  "let self = (new_preference_item 3 24 None 0)\<lparr>m_name := ''axe''\<rparr>; role = new_preference_item 3 24 None 0;
       d = \<lparr>body_size = 3, find_weapon_def = (\<lambda>n. if n = ''axe'' then Some \<lparr>is_ranged = False, multi_grasp = 2\<rparr> else None)\<rparr>
   in matches example_codes self role (Some d) = 1 \<and> m_iType role = c_WEAPON example_codes \<and>
      (\<exists>w. find_weapon_def d (m_name self) = Some w \<and> multi_grasp w \<le> body_size d)"
proof -
  let ?self = "(new_preference_item 3 24 None 0)\<lparr>m_name := ''axe''\<rparr>"
  let ?role = "new_preference_item 3 24 None 0"
  let ?d = "\<lparr>body_size = 3, find_weapon_def = (\<lambda>n. if n = ''axe'' then Some \<lparr>is_ranged = False, multi_grasp = 2\<rparr> else None)\<rparr>"
  have h1: "matches example_codes ?self ?role (Some ?d) = 1"
    by (simp add: pref_eval)
  have h2: "m_iType ?role = c_WEAPON example_codes" by (simp add: pref_eval)
  show ?thesis using h1 h2 matches_weapon_wieldable [OF h1 h2] by simp
qed

theorem construct_distinct_aspects_witness:
  "store_wf empty_store \<and>
   construct_preference example_codes (Ctor_named 1 ''axe'') None empty_store =
     (new_preference_named example_codes 1 ''axe'' None 0,
      \<lparr>aspect_owner = (\<lambda>a. None)(0 := Some None), next_aspect = 1\<rparr>) \<and>
   construct_preference example_codes (Ctor_item 2 7) (Some 5)
      \<lparr>aspect_owner = (\<lambda>a. None)(0 := Some None), next_aspect = 1\<rparr> =
     (new_preference_item 2 7 (Some 5) 1,
      \<lparr>aspect_owner = (\<lambda>a. None)(0 := Some None, 1 := Some (Some 5)), next_aspect = 2\<rparr>) \<and>
   pref_aspect (new_preference_named example_codes 1 ''axe'' None 0) \<noteq> pref_aspect (new_preference_item 2 7 (Some 5) 1)"
proof -
  let ?st1 = "\<lparr>aspect_owner = (\<lambda>a. None)(0 := Some None), next_aspect = 1\<rparr>"
  have c1: "construct_preference example_codes (Ctor_named 1 ''axe'') None empty_store =
     (new_preference_named example_codes 1 ''axe'' None 0, ?st1)"
    by (simp add: construct_preference_eq empty_store_def)
  have c2: "construct_preference example_codes (Ctor_item 2 7) (Some 5) ?st1 =
     (new_preference_item 2 7 (Some 5) 1,
      \<lparr>aspect_owner = (\<lambda>a. None)(0 := Some None, 1 := Some (Some 5)), next_aspect = 2\<rparr>)"
    by (simp add: construct_preference_eq)
  show ?thesis using empty_store_wf c1 c2 construct_distinct_aspects [OF empty_store_wf c1 c2] by blast
qed

theorem parentless_aspect_leaks_witness:
  "construct_preference example_codes Ctor_default None empty_store =
     (new_preference example_codes None 0, \<lparr>aspect_owner = (\<lambda>a. None)(0 := Some None), next_aspect = 1\<rparr>) \<and>
   leaked (destroy_preference (copy_preference (new_preference example_codes None 0))
     (destroy_preference (new_preference example_codes None 0)
        \<lparr>aspect_owner = (\<lambda>a. None)(0 := Some None), next_aspect = 1\<rparr>)) 0"
proof -
  have c: "construct_preference example_codes Ctor_default None empty_store =
     (new_preference example_codes None 0, \<lparr>aspect_owner = (\<lambda>a. None)(0 := Some None), next_aspect = 1\<rparr>)"
    by (simp add: construct_preference_eq empty_store_def)
  have "pref_aspect (new_preference example_codes None 0) = 0" by (simp add: new_preference_def)
  then show ?thesis using c parentless_aspect_leaks [OF c] by simp
qed

end
