(* ===== verification/HistFigure.thy ===== *)
theory HistFigure
  imports Prelude "HOL-Library.AList" "HOL-Library.Multiset"
begin

text \<open>
  Historical figures (\<open>src/src/histfigure.cpp\<close>): the kills of a figure
  read from the game's memory, the derived kill counts and kill lists
  (cached on first use), nickname writes, and the fake identity of a
  vampire.  The game process is an explicit environment: the reads the code
  calls on \<open>DFInstance\<close> are functions of the environment, its string
  memory is a store from addresses to strings that \<open>write_string\<close>
  updates, and the memory-layout offsets are functions from field names to
  offsets.  Addresses (\<open>VIRTADDR\<close>) are 32-bit words, so address
  arithmetic wraps as in the code; \<open>qint16\<close> race ids are 16-bit words
  read with \<^term>\<open>sint\<close>.  \<open>QVector::at\<close> out of range is an error
  value (\<^const>\<open>None\<close>).  The comparators \<open>sort_kill_count\<close> and
  \<open>sort_kill_date\<close> are declared in \<open>histfigure.h\<close>, which is not part of
  the sources; \<open>qSort\<close> with a comparator is an insertion sort by it, and
  the comparators are fields of the environment.  The string helpers
  \<open>capitalize\<close>, \<open>capitalizeEach\<close>, \<open>Race::name\<close> and \<open>tr\<close> are
  likewise environment functions.  \<open>QString::arg\<close> on an integer is the
  decimal printer \<open>int_str\<close>.
\<close>

record kill_info =
  ki_name :: string
  ki_creature :: string
  ki_count :: int
  ki_year :: int

record df_env =
  find_historical_figure :: "int \<Rightarrow> u32"
  find_event :: "u32 \<Rightarrow> u32"
  find_identity :: "int \<Rightarrow> u32"
  read_addr :: "u32 \<Rightarrow> u32"
  read_int :: "u32 \<Rightarrow> int"
  read_short :: "u32 \<Rightarrow> s16"
  enumerate_vector :: "u32 \<Rightarrow> u32 list"
  enumerate_vector_short :: "u32 \<Rightarrow> s16 list"
  strings :: "u32 \<Rightarrow> string"
  get_translated_word :: "u32 \<Rightarrow> string"
  race_name :: "int \<Rightarrow> int \<Rightarrow> string option"
  hist_figure_offset :: "string \<Rightarrow> u32"
  dwarf_offset :: "string \<Rightarrow> u32"
  capitalize :: "string \<Rightarrow> string"
  capitalize_each :: "string \<Rightarrow> string"
  sort_kill_count :: "kill_info \<Rightarrow> kill_info \<Rightarrow> bool"
  sort_kill_date :: "kill_info \<Rightarrow> kill_info \<Rightarrow> bool"

record hist_figure =
  m_id :: int
  m_address :: u32
  m_fig_info_addr :: u32
  m_fake_ident_addr :: u32
  m_fake_name_addr :: u32
  m_fake_name :: string
  m_fake_nick :: string
  m_fake_birth_year :: u32
  m_fake_birth_time :: u32
  m_total_kills_other :: int
  m_nick_addrs :: "u32 list"
  m_other_kills :: "kill_info list"
  m_notable_kills :: "kill_info list"
  m_notable_kill_list :: "string list"
  m_other_kill_list :: "string list"

subsection \<open>Helpers\<close>

text \<open>\<open>qSort(begin, end, lessThan)\<close>: a permutation ordered by the comparator.\<close>

fun insort_by :: "('a \<Rightarrow> 'a \<Rightarrow> bool) \<Rightarrow> 'a \<Rightarrow> 'a list \<Rightarrow> 'a list" where
  "insort_by lt x [] = [x]"
| "insort_by lt x (y # ys) = (if lt y x then y # insort_by lt x ys else x # y # ys)"

definition qsort_by :: "('a \<Rightarrow> 'a \<Rightarrow> bool) \<Rightarrow> 'a list \<Rightarrow> 'a list" where
  "qsort_by lt xs = foldr (insort_by lt) xs []"

text \<open>\<open>QString::arg(int)\<close>: the decimal digits of an integer.\<close>

fun nat_str :: "nat \<Rightarrow> string" where
  "nat_str n = (if n < 10 then [char_of (48 + n)] else nat_str (n div 10) @ [char_of (48 + n mod 10)])"

declare nat_str.simps [simp del]

definition int_str :: "int \<Rightarrow> string" where
  "int_str i = (if i < 0 then CHR ''-'' # nat_str (nat (- i)) else nat_str (nat i))"

text \<open>\<open>QVector::at\<close>: defined only in range.\<close>

definition vec_at :: "'a list \<Rightarrow> nat \<Rightarrow> 'a option" where
  "vec_at xs i = (if i < length xs then Some (xs ! i) else None)"

subsection \<open>Reading the kills\<close>

text \<open>
  Lines 67-76: the kills at the current site grouped by race, an undead
  kill under the negated race id; the hash is an association list in the
  order the keys first appear.
\<close>

fun group_kills :: "s16 list \<Rightarrow> s16 list \<Rightarrow> u32 list \<Rightarrow> nat \<Rightarrow> (int \<times> int) list \<Rightarrow> (int \<times> int) list option" where
  "group_kills [] undead counts idx kills = Some kills"
| "group_kills (rid # rids) undead counts idx kills =
     (case (vec_at undead idx, vec_at counts idx) of
        (Some u, Some cnt) \<Rightarrow>
          (let kid = (if u \<noteq> 0 then - sint rid else sint rid);
               count = sint cnt;
               curr = (case map_of kills kid of None \<Rightarrow> 0 | Some v \<Rightarrow> v)
           in group_kills rids undead counts (Suc idx) (AList.update kid (count + curr) kills))
      | _ \<Rightarrow> None)"

text \<open>Lines 77-91: one \<open>kill_info\<close> per race, its count added to the total.\<close>

definition other_kill_info :: "df_env \<Rightarrow> int \<times> int \<Rightarrow> kill_info" where
  "other_kill_info env rk =
     (let (race_id, cnt) = rk in
      \<lparr>ki_name = [],
       ki_creature = (case race_name env \<bar>race_id\<bar> cnt of
                        None \<Rightarrow> []
                      | Some n \<Rightarrow> if race_id < 0 then ''undead '' @ n else n),
       ki_count = cnt, ki_year = -1\<rparr>)"

text \<open>Lines 95-117: a kill event of type 3 whose victim is a known historical figure.\<close>

definition notable_kill :: "df_env \<Rightarrow> u32 \<Rightarrow> kill_info option" where
  "notable_kill env evt_id =
     (let evt_addr = find_event env evt_id in
      if evt_addr = 0 then None
      else
        (let vtable_addr = read_addr env evt_addr;
             evt_type = read_int env (read_addr env vtable_addr + 1)
         in if evt_type \<noteq> 3 then None
            else
              (let vid = read_int env (evt_addr + 0x18);
                   h_fig_addr = find_historical_figure env vid
               in if h_fig_addr = 0 then None
                  else
                    (let name_addr = h_fig_addr + hist_figure_offset env ''hist_name'';
                         race = sint (read_short env (h_fig_addr + hist_figure_offset env ''hist_race''))
                     in Some \<lparr>ki_name = capitalize_each env (strings env name_addr @ '' '' @ get_translated_word env name_addr),
                              ki_creature = (case race_name env race 1 of None \<Rightarrow> [] | Some n \<Rightarrow> n),
                              ki_count = 1,
                              ki_year = read_int env (evt_addr + 0x0004)\<rparr>))))"

definition read_kills :: "df_env \<Rightarrow> hist_figure \<Rightarrow> hist_figure option" where
  "read_kills env h =
     (let kills_addr = read_addr env (m_fig_info_addr h + 0x0018) in
      if kills_addr = 0 then Some h
      else
        (let kill_events = enumerate_vector env kills_addr;
             race_ids = enumerate_vector_short env (kills_addr + 0x0010);
             undead_kills = enumerate_vector_short env (kills_addr + 0x0060);
             cur_site_kills = enumerate_vector env (kills_addr + 0x0070)
         in case (if cur_site_kills \<noteq> [] then group_kills race_ids undead_kills cur_site_kills 0 [] else Some []) of
              None \<Rightarrow> None
            | Some kills \<Rightarrow>
                (let infos = map (other_kill_info env) kills;
                     h1 = (if cur_site_kills \<noteq> [] then
                             h\<lparr>m_other_kills := qsort_by (sort_kill_count env) (m_other_kills h @ infos),
                               m_total_kills_other := m_total_kills_other h + sum_list (map ki_count infos)\<rparr>
                           else h)
                 in Some (if kill_events \<noteq> [] then
                            h1\<lparr>m_notable_kills := qsort_by (sort_kill_date env)
                                 (m_notable_kills h1 @ List.map_filter (notable_kill env) kill_events)\<rparr>
                          else h1))))"

subsection \<open>Construction\<close>

definition new_hist_figure :: "df_env \<Rightarrow> int \<Rightarrow> hist_figure option" where
  "new_hist_figure env hid =
     (let h0 = \<lparr>m_id = hid, m_address = find_historical_figure env hid, m_fig_info_addr = 0,
                m_fake_ident_addr = 0, m_fake_name_addr = 0, m_fake_name = [], m_fake_nick = [],
                m_fake_birth_year = 0, m_fake_birth_time = 0, m_total_kills_other = 0,
                m_nick_addrs = [], m_other_kills = [], m_notable_kills = [],
                m_notable_kill_list = [], m_other_kill_list = []\<rparr>
      in if m_address h0 = 0 then Some h0
         else read_kills env
                (h0\<lparr>m_nick_addrs := [m_address h0 + hist_figure_offset env ''hist_name'' + dwarf_offset env ''nick_name''],
                    m_fig_info_addr := read_addr env (m_address h0 + hist_figure_offset env ''hist_fig_info'')\<rparr>))"

subsection \<open>Queries and updates\<close>

definition write_nick_name :: "df_env \<Rightarrow> hist_figure \<Rightarrow> string \<Rightarrow> df_env" where
  "write_nick_name env h new_nick =
     env\<lparr>strings := foldl (\<lambda>st addr. if addr \<noteq> 0 then st(addr := new_nick) else st) (strings env) (m_nick_addrs h)\<rparr>"

definition total_kills :: "hist_figure \<Rightarrow> int" where
  "total_kills h = int (length (m_notable_kills h)) + m_total_kills_other h"

definition kill_count :: "hist_figure \<Rightarrow> bool \<Rightarrow> int" where
  "kill_count h notable = (if \<not> notable then m_total_kills_other h else int (length (m_notable_kills h)))"

definition notable_kills :: "hist_figure \<Rightarrow> string list \<times> hist_figure" where
  "notable_kills h =
     (let h' = (if length (m_notable_kill_list h) = 0 \<and> 0 < kill_count h True then
                  h\<lparr>m_notable_kill_list := m_notable_kill_list h @
                      map (\<lambda>ki. ki_name ki @ '' the '' @ ki_creature ki @ '', d.'' @ int_str (ki_year ki)) (m_notable_kills h)\<rparr>
                else h)
      in (m_notable_kill_list h', h'))"

definition other_kills :: "hist_figure \<Rightarrow> string list \<times> hist_figure" where
  "other_kills h =
     (let h' = (if length (m_other_kill_list h) = 0 \<and> 0 < kill_count h False then
                  h\<lparr>m_other_kill_list := m_other_kill_list h @
                      map (\<lambda>ki. int_str (ki_count ki) @ '' '' @ ki_creature ki) (m_other_kills h)\<rparr>
                else h)
      in (m_other_kill_list h', h'))"

definition has_fake_identity :: "df_env \<Rightarrow> hist_figure \<Rightarrow> bool \<times> hist_figure" where
  "has_fake_identity env h =
     (let rep_info = read_addr env (m_fig_info_addr h + hist_figure_offset env ''reputation'') in
      if rep_info \<noteq> 0 then
        (let cur_ident = read_int env (rep_info + hist_figure_offset env ''current_ident'');
             fake_ident = find_identity env cur_ident;
             fake_name_addr = fake_ident + hist_figure_offset env ''fake_name'';
             nick_addrs = m_nick_addrs h @ [fake_ident + hist_figure_offset env ''fake_name'' + dwarf_offset env ''nick_name''];
             h' = h\<lparr>m_fake_ident_addr := fake_ident,
                    m_fake_name_addr := fake_name_addr,
                    m_fake_name := capitalize env (strings env (fake_name_addr + dwarf_offset env ''first_name'')),
                    m_nick_addrs := nick_addrs,
                    m_fake_nick := strings env (last nick_addrs),
                    m_fake_birth_year := fake_ident + hist_figure_offset env ''fake_birth_year'',
                    m_fake_birth_time := fake_ident + hist_figure_offset env ''fake_birth_time''\<rparr>
         in (m_fake_ident_addr h' \<noteq> 0, h'))
      else (m_fake_ident_addr h \<noteq> 0, h))"

subsection \<open>Consistency of the kill counts\<close>

text \<open>The cached total of the other kills is the sum of their counts.\<close>

definition kills_consistent :: "hist_figure \<Rightarrow> bool" where
  "kills_consistent h \<longleftrightarrow> m_total_kills_other h = sum_list (map ki_count (m_other_kills h))"

subsection \<open>Sequences of calls\<close>

text \<open>
  A client holds a figure and calls its public methods in any order.  A
  call is a value of \<open>hist_call\<close>; \<open>hist_step\<close> runs it on the game
  process and the figure, and \<open>run_calls\<close> runs a sequence.  The
  queries \<open>total_kills\<close> and \<open>kill_count\<close> change nothing.  The cache of
  a kill list is coherent when it is empty or holds what a fresh
  computation returns; \<open>same_kills\<close> says two figures have the same kills.
\<close>

datatype hist_call =
    Call_write_nick_name string
  | Call_total_kills
  | Call_kill_count bool
  | Call_notable_kills
  | Call_other_kills
  | Call_has_fake_identity

fun hist_step :: "hist_call \<Rightarrow> df_env \<times> hist_figure \<Rightarrow> df_env \<times> hist_figure" where
  "hist_step (Call_write_nick_name n) (env, h) = (write_nick_name env h n, h)"
| "hist_step Call_total_kills (env, h) = (env, h)"
| "hist_step (Call_kill_count notable) (env, h) = (env, h)"
| "hist_step Call_notable_kills (env, h) = (env, snd (notable_kills h))"
| "hist_step Call_other_kills (env, h) = (env, snd (other_kills h))"
| "hist_step Call_has_fake_identity (env, h) = (env, snd (has_fake_identity env h))"

definition run_calls :: "hist_call list \<Rightarrow> df_env \<times> hist_figure \<Rightarrow> df_env \<times> hist_figure" where
  "run_calls cs st = fold hist_step cs st"

definition cache_ok :: "hist_figure \<Rightarrow> bool" where
  "cache_ok h \<longleftrightarrow>
     (m_notable_kill_list h = [] \<or> m_notable_kill_list h = fst (notable_kills (h\<lparr>m_notable_kill_list := []\<rparr>))) \<and>
     (m_other_kill_list h = [] \<or> m_other_kill_list h = fst (other_kills (h\<lparr>m_other_kill_list := []\<rparr>)))"

definition same_kills :: "hist_figure \<Rightarrow> hist_figure \<Rightarrow> bool" where
  "same_kills h h' \<longleftrightarrow>
     m_notable_kills h' = m_notable_kills h \<and> m_other_kills h' = m_other_kills h \<and>
     m_total_kills_other h' = m_total_kills_other h"

text \<open>
  A small game process: figure 7 lives at 0x1000, its figure info at
  0x2000 and its kill record at 0x3000.  The record holds three site
  kills (race 1, race 0 as undead, race 1 again) and one kill event 0x55,
  a kill (type 3) of figure 8 in year 250.  Its reputation record at
  0x4000 names an identity that does not exist.
\<close>

definition example_env :: df_env where
  "example_env =
     \<lparr>find_historical_figure = (\<lambda>i. if i = 7 then 0x1000 else if i = 8 then 0x8000 else 0),
      find_event = (\<lambda>e. if e = 0x55 then 0x5000 else 0),
      find_identity = (\<lambda>i. 0),
      read_addr = (\<lambda>a. if a = 0x1020 then 0x2000 else if a = 0x2018 then 0x3000
                       else if a = 0x2040 then 0x4000 else if a = 0x5000 then 0x6000
                       else if a = 0x6000 then 0x7000 else 0),
      read_int = (\<lambda>a. if a = 0x7001 then 3 else if a = 0x5018 then 8 else if a = 0x5004 then 250 else 5),
      read_short = (\<lambda>a. 0),
      enumerate_vector = (\<lambda>a. if a = 0x3000 then [0x55] else if a = 0x3070 then [2, 3, 4] else []),
      enumerate_vector_short = (\<lambda>a. if a = 0x3010 then [1, 0, 1] else if a = 0x3060 then [0, 1, 0] else []),
      strings = (\<lambda>a. if a = 0x8010 then ''Urist'' else []),
      get_translated_word = (\<lambda>a. if a = 0x8010 then ''Axe'' else []),
      race_name = (\<lambda>r c. if r = 0 then Some ''goblin'' else Some ''dwarf''),
      hist_figure_offset = (\<lambda>f. if f = ''hist_fig_info'' then 0x20 else if f = ''reputation'' then 0x40
                                 else if f = ''fake_name'' then 0x8 else 0x10),
      dwarf_offset = (\<lambda>f. 0x4),
      capitalize = (\<lambda>x. x), capitalize_each = (\<lambda>x. x),
      sort_kill_count = (\<lambda>a b. ki_count b < ki_count a),
      sort_kill_date = (\<lambda>a b. ki_year a < ki_year b)\<rparr>"

definition example_fig :: hist_figure where
  "example_fig =
     \<lparr>m_id = 7, m_address = 0x1000, m_fig_info_addr = 0x2000, m_fake_ident_addr = 0,
      m_fake_name_addr = 0, m_fake_name = [], m_fake_nick = [], m_fake_birth_year = 0,
      m_fake_birth_time = 0, m_total_kills_other = 9, m_nick_addrs = [0x1014],
      m_other_kills = [\<lparr>ki_name = [], ki_creature = ''dwarf'', ki_count = 6, ki_year = -1\<rparr>,
                       \<lparr>ki_name = [], ki_creature = ''goblin'', ki_count = 3, ki_year = -1\<rparr>],
      m_notable_kills = [\<lparr>ki_name = ''Urist Axe'', ki_creature = ''goblin'', ki_count = 1, ki_year = 250\<rparr>],
      m_notable_kill_list = [], m_other_kill_list = []\<rparr>"

section \<open>Lemmas\<close>

lemma mset_insort_by [simp]: "mset (insort_by lt x xs) = add_mset x (mset xs)"
  by (induction xs) auto

lemma mset_qsort_by [simp]: "mset (qsort_by lt xs) = mset xs"
  by (induction xs) (simp_all add: qsort_by_def)

lemma sum_list_qsort_by [simp]:
  fixes f :: "'a \<Rightarrow> int"
  shows "sum_list (map f (qsort_by lt xs)) = sum_list (map f xs)"
proof -
  have "mset (map f (qsort_by lt xs)) = mset (map f xs)" by simp
  then have "sum_mset (mset (map f (qsort_by lt xs))) = sum_mset (mset (map f xs))" by (rule arg_cong)
  then show ?thesis by (simp only: sum_mset_sum_list)
qed

lemma length_qsort_by [simp]: "length (qsort_by lt xs) = length xs"
  by (metis mset_qsort_by size_mset)

lemma alist_update_sum:
  "distinct (map fst al) \<Longrightarrow>
   sum_list (map snd (AList.update k v al)) + (case map_of al k of None \<Rightarrow> 0 | Some x \<Rightarrow> x)
     = sum_list (map snd al) + (v :: int)"
  by (induction al) (auto split: option.splits)

lemma group_kills_Some:
  assumes "distinct (map fst kills)"
    and "idx + length rids \<le> length undead" and "idx + length rids \<le> length counts"
  shows "\<exists>kills'. group_kills rids undead counts idx kills = Some kills' \<and> distinct (map fst kills') \<and>
     sum_list (map snd kills') = sum_list (map snd kills) + sum_list (map sint (take (length rids) (drop idx counts)))"
  using assms
proof (induction rids arbitrary: idx kills)
  case Nil
  then show ?case by simp
next
  case (Cons rid rids)
  have i: "idx < length undead" "idx < length counts" using Cons.prems by simp_all
  let ?kid = "if undead ! idx \<noteq> 0 then - sint rid else sint rid"
  let ?curr = "case map_of kills ?kid of None \<Rightarrow> 0 | Some v \<Rightarrow> v"
  let ?k1 = "AList.update ?kid (sint (counts ! idx) + ?curr) kills"
  have d1: "distinct (map fst ?k1)" using Cons.prems(1) by (simp add: distinct_update)
  have p: "Suc idx + length rids \<le> length undead" "Suc idx + length rids \<le> length counts"
    using Cons.prems(2,3) by simp_all
  obtain k' where k': "group_kills rids undead counts (Suc idx) ?k1 = Some k'" "distinct (map fst k')"
    "sum_list (map snd k') = sum_list (map snd ?k1) + sum_list (map sint (take (length rids) (drop (Suc idx) counts)))"
    using Cons.IH [OF d1 p] by blast
  have s1: "sum_list (map snd ?k1) = sum_list (map snd kills) + sint (counts ! idx)"
    using alist_update_sum [OF Cons.prems(1), of ?kid "sint (counts ! idx) + ?curr"] by simp
  have dr: "drop idx counts = counts ! idx # drop (Suc idx) counts"
    using i(2) by (simp add: Cons_nth_drop_Suc)
  have g: "group_kills (rid # rids) undead counts idx kills = group_kills rids undead counts (Suc idx) ?k1"
    using i by (simp add: vec_at_def Let_def)
  show ?case using k' s1 unfolding g dr by simp
qed

lemma group_kills_None:
  assumes "length undead < idx + length rids \<or> length counts < idx + length rids"
    and "idx \<le> length undead" and "idx \<le> length counts"
  shows "group_kills rids undead counts idx kills = None"
  using assms
proof (induction rids arbitrary: idx kills)
  case Nil
  then show ?case by simp
next
  case (Cons rid rids)
  show ?case
  proof (cases "idx < length undead \<and> idx < length counts")
    case True
    then show ?thesis using Cons.IH [of "Suc idx"] Cons.prems by (simp add: vec_at_def Let_def)
  next
    case False
    then show ?thesis by (auto simp: vec_at_def)
  qed
qed

section \<open>Properties\<close>

text \<open>
  C4: when the race, undead and count vectors are long enough, grouping
  the site kills by race succeeds, gives each race one entry, and keeps
  the total of the kill counts.
\<close>

theorem group_kills_total:
  assumes "length rids \<le> length undead" and "length rids \<le> length counts"
  shows "\<exists>kills. group_kills rids undead counts 0 [] = Some kills \<and> distinct (map fst kills) \<and>
           sum_list (map snd kills) = sum_list (map sint (take (length rids) counts))"
  using group_kills_Some [of "[]" 0 rids undead counts] assms by simp

text \<open>
  C28: grouping the kills from the start fails exactly when the undead
  or the count vector is shorter than the race vector.
\<close>

theorem group_kills_error:
  "group_kills rids undead counts 0 [] = None \<longleftrightarrow>
   length undead < length rids \<or> length counts < length rids"
  using group_kills_Some [of "[]" 0 rids undead counts] group_kills_None [of undead 0 rids counts "[]"]
  by (cases "length undead < length rids \<or> length counts < length rids") auto

lemma group_kills_start_None_iff:
  "group_kills rids undead counts 0 [] = None \<longleftrightarrow> length undead < length rids \<or> length counts < length rids"
  using group_kills_Some [of "[]" 0 rids undead counts] group_kills_None [of undead 0 rids counts "[]"]
  by (cases "length undead < length rids \<or> length counts < length rids") auto

lemma group_kills_start_Some_iff:
  "(\<exists>k. group_kills rids undead counts 0 [] = Some k) \<longleftrightarrow> length rids \<le> length undead \<and> length rids \<le> length counts"
  using group_kills_start_None_iff [of rids undead counts] by (cases "group_kills rids undead counts 0 []") auto

text \<open>
  C29: the constructor fails exactly when the figure exists, has a kill
  record with kills at the current site, and the race vector is longer
  than the vector of undead flags or of counts; every other figure is
  built.
\<close>

theorem new_hist_figure_error:
  "new_hist_figure env hid = None \<longleftrightarrow>
     (let a = find_historical_figure env hid;
          kills_addr = read_addr env (read_addr env (a + hist_figure_offset env ''hist_fig_info'') + 0x0018);
          race_ids = enumerate_vector_short env (kills_addr + 0x0010);
          undead_kills = enumerate_vector_short env (kills_addr + 0x0060);
          cur_site_kills = enumerate_vector env (kills_addr + 0x0070)
      in a \<noteq> 0 \<and> kills_addr \<noteq> 0 \<and> cur_site_kills \<noteq> [] \<and>
         (length undead_kills < length race_ids \<or> length cur_site_kills < length race_ids))"
  by (simp add: new_hist_figure_def read_kills_def Let_def group_kills_start_None_iff group_kills_start_Some_iff not_le split: option.split)

text \<open>
  The grouping reads the undead flags only from the current index on, so
  a flag before it does not matter.
\<close>

lemma group_kills_undead_before:
  "i < idx \<Longrightarrow> group_kills rids (undead[i := u]) counts idx kills = group_kills rids undead counts idx kills"
proof (induction rids arbitrary: idx kills)
  case (Cons rid rids)
  have "vec_at (undead[i := u]) idx = vec_at undead idx" using Cons.prems by (simp add: vec_at_def)
  then show ?case using Cons.IH [of "Suc idx"] Cons.prems by (simp split: option.split)
qed simp

text \<open>
  C13: undead kills of race 0 are keyed by the negated id, which is
  again 0: for every kill vector, an undead kill of race 0 is grouped
  exactly as a living one (merged with the living kills of race 0), and
  the entry of race 0 is never labelled undead.
\<close>

theorem undead_race_zero_merged:
  assumes "sint rid = 0" and "idx < length undead"
  shows "group_kills (rid # rids) undead counts idx kills = group_kills (rid # rids) (undead[idx := 0]) counts idx kills \<and>
         ki_creature (other_kill_info env (0, c)) = (case race_name env 0 c of None \<Rightarrow> [] | Some n \<Rightarrow> n)"
proof -
  have "group_kills rids (undead[idx := 0]) counts (Suc idx) = group_kills rids undead counts (Suc idx)"
    using group_kills_undead_before [of idx "Suc idx" rids undead 0 counts] by auto
  then show ?thesis using assms by (simp add: vec_at_def other_kill_info_def split: option.split)
qed

lemma read_kills_consistent:
  assumes "kills_consistent h" and "read_kills env h = Some h'"
  shows "kills_consistent h'"
  using assms
  by (auto simp: read_kills_def kills_consistent_def Let_def split: if_splits option.splits)

text \<open>A constructed figure is the initial one, or the initial one after \<open>read_kills\<close>.\<close>

lemma new_hist_figure_start:
  assumes "new_hist_figure env hid = Some h"
  shows "\<exists>h0. m_total_kills_other h0 = 0 \<and> m_other_kills h0 = [] \<and> m_notable_kills h0 = [] \<and>
              (h = h0 \<or> read_kills env h0 = Some h)"
proof (cases "find_historical_figure env hid = 0")
  case True
  then show ?thesis using assms
    by (intro exI [of _ h]) (auto simp: new_hist_figure_def Let_def)
next
  case False
  with assms have "read_kills env (\<lparr>m_id = hid, m_address = find_historical_figure env hid, m_fig_info_addr = 0,
                m_fake_ident_addr = 0, m_fake_name_addr = 0, m_fake_name = [], m_fake_nick = [],
                m_fake_birth_year = 0, m_fake_birth_time = 0, m_total_kills_other = 0,
                m_nick_addrs = [], m_other_kills = [], m_notable_kills = [],
                m_notable_kill_list = [], m_other_kill_list = []\<rparr>\<lparr>m_nick_addrs := [find_historical_figure env hid + hist_figure_offset env ''hist_name'' + dwarf_offset env ''nick_name''],
                    m_fig_info_addr := read_addr env (find_historical_figure env hid + hist_figure_offset env ''hist_fig_info'')\<rparr>) = Some h"
    by (simp add: new_hist_figure_def Let_def)
  then show ?thesis by (intro exI conjI disjI2) simp_all
qed

lemma new_hist_figure_from_consistent:
  assumes "new_hist_figure env hid = Some h"
  shows "\<exists>h0. kills_consistent h0 \<and> (h = h0 \<or> read_kills env h0 = Some h)"
proof -
  obtain h0 where "m_total_kills_other h0 = 0" "m_other_kills h0 = []" "h = h0 \<or> read_kills env h0 = Some h"
    using new_hist_figure_start [OF assms] by blast
  then show ?thesis by (intro exI [of _ h0]) (simp add: kills_consistent_def)
qed

subsection \<open>Order of the kill lists\<close>

lemma set_insort_by [simp]: "set (insort_by lt x xs) = insert x (set xs)"
  by (induction xs) auto

lemma sorted_insort_by:
  "sorted_wrt (\<lambda>a b. f a \<le> f b) xs \<Longrightarrow> sorted_wrt (\<lambda>a b. f a \<le> (f b :: int)) (insort_by (\<lambda>a b. f a < f b) x xs)"
  by (induction xs) (auto intro: order_trans)

lemma sorted_qsort_by:
  "sorted_wrt (\<lambda>a b. f a \<le> (f b :: int)) (qsort_by (\<lambda>a b. f a < f b) xs)"
  by (induction xs) (simp_all add: qsort_by_def sorted_insort_by)

text \<open>\<open>read_kills\<close> leaves each kill list alone or replaces it by a sorted list.\<close>

lemma read_kills_lists:
  assumes "read_kills env h = Some h'"
  shows "(m_other_kills h' = m_other_kills h \<or> (\<exists>ys. m_other_kills h' = qsort_by (sort_kill_count env) ys)) \<and>
         (m_notable_kills h' = m_notable_kills h \<or> (\<exists>zs. m_notable_kills h' = qsort_by (sort_kill_date env) zs))"
  using assms
  by (auto simp: read_kills_def Let_def split: if_splits option.splits)

text \<open>With the comparators of \<open>histfigure.h\<close>: notable kills by year, other kills by falling count.\<close>

lemma read_kills_sorted:
  assumes "read_kills env h = Some h'"
    and "sort_kill_count env = (\<lambda>a b. ki_count b < ki_count a)"
    and "sort_kill_date env = (\<lambda>a b. ki_year a < ki_year b)"
    and "sorted_wrt (\<lambda>a b. ki_year a \<le> ki_year b) (m_notable_kills h)"
    and "sorted_wrt (\<lambda>a b. ki_count b \<le> ki_count a) (m_other_kills h)"
  shows "sorted_wrt (\<lambda>a b. ki_year a \<le> ki_year b) (m_notable_kills h') \<and>
         sorted_wrt (\<lambda>a b. ki_count b \<le> ki_count a) (m_other_kills h')"
proof -
  have c: "sort_kill_count env = (\<lambda>a b. - ki_count a < - ki_count b)" using assms(2) by simp
  have sc: "sorted_wrt (\<lambda>a b. ki_count b \<le> ki_count a) (qsort_by (sort_kill_count env) ys)" for ys
    unfolding c using sorted_qsort_by [of "\<lambda>k. - ki_count k" ys] by simp
  have sd: "sorted_wrt (\<lambda>a b. ki_year a \<le> ki_year b) (qsort_by (sort_kill_date env) zs)" for zs
    using sorted_qsort_by [of ki_year zs] by (simp add: assms(3))
  have "m_other_kills h' = m_other_kills h \<or> (\<exists>ys. m_other_kills h' = qsort_by (sort_kill_count env) ys)"
    using read_kills_lists [OF assms(1)] by (rule conjunct1)
  then have o: "sorted_wrt (\<lambda>a b. ki_count b \<le> ki_count a) (m_other_kills h')"
  proof
    assume "\<exists>ys. m_other_kills h' = qsort_by (sort_kill_count env) ys"
    then obtain ys where "m_other_kills h' = qsort_by (sort_kill_count env) ys" ..
    then show ?thesis using sc [of ys] by (simp only:)
  qed (simp only: assms(5))
  have "m_notable_kills h' = m_notable_kills h \<or> (\<exists>zs. m_notable_kills h' = qsort_by (sort_kill_date env) zs)"
    using read_kills_lists [OF assms(1)] by (rule conjunct2)
  then have n: "sorted_wrt (\<lambda>a b. ki_year a \<le> ki_year b) (m_notable_kills h')"
  proof
    assume "\<exists>zs. m_notable_kills h' = qsort_by (sort_kill_date env) zs"
    then obtain zs where "m_notable_kills h' = qsort_by (sort_kill_date env) zs" ..
    then show ?thesis using sd [of zs] by (simp only:)
  qed (simp only: assms(4))
  from n o show ?thesis ..
qed

text \<open>
  C5: for every figure the constructor reads, the total number of kills
  is the number of notable kills plus the counts of the other kills.
\<close>

theorem new_hist_figure_total_kills:
  assumes "new_hist_figure env hid = Some h"
  shows "total_kills h = int (length (m_notable_kills h)) + sum_list (map ki_count (m_other_kills h))"
proof -
  obtain h0 where "kills_consistent h0" "h = h0 \<or> read_kills env h0 = Some h"
    using new_hist_figure_from_consistent [OF assms] by blast
  then have "kills_consistent h" using read_kills_consistent by blast
  then show ?thesis by (simp add: total_kills_def kills_consistent_def)
qed

text \<open>
  C30: both kill lists are built once: asking again on the updated figure
  returns the same list and the same figure.
\<close>

theorem kill_lists_cached:
  "notable_kills (snd (notable_kills h)) = notable_kills h \<and> other_kills (snd (other_kills h)) = other_kills h"
  by (auto simp: notable_kills_def other_kills_def kill_count_def Let_def)

text \<open>
  On a figure whose list is not yet built, the notable kill list
  has one line per notable kill.
\<close>

lemma notable_kills_one_line_each:
  assumes "m_notable_kill_list h = []"
  shows "length (fst (notable_kills h)) = length (m_notable_kills h)"
  using assms by (auto simp: notable_kills_def kill_count_def Let_def)

lemma foldl_write:
  "foldl (\<lambda>st addr. if addr \<noteq> 0 then st(addr := n) else st) st0 addrs a =
     (if a \<noteq> 0 \<and> a \<in> set addrs then n else st0 a)"
  by (induction addrs arbitrary: st0) auto

text \<open>
  C31: writing a nickname changes exactly the strings at the figure's
  non-null nickname addresses.
\<close>

theorem write_nick_name_effect:
  "strings (write_nick_name env h n) a = (if a \<noteq> 0 \<and> a \<in> set (m_nick_addrs h) then n else strings env a)"
  by (simp add: write_nick_name_def foldl_write)

text \<open>
  C14: each call of \<open>has_fake_identity\<close> on a figure with a
  reputation record appends another nickname address, so two calls add
  two.
\<close>

theorem has_fake_identity_twice:
  assumes "read_addr env (m_fig_info_addr h + hist_figure_offset env ''reputation'') \<noteq> 0"
  shows "length (m_nick_addrs (snd (has_fake_identity env (snd (has_fake_identity env h))))) = length (m_nick_addrs h) + 2"
  using assms by (simp add: has_fake_identity_def Let_def)

text \<open>
  C15: when the current identity is not found,
  \<open>has_fake_identity\<close> still appends the address of the
  nickname field of an identity at address 0, and
  \<open>write_nick_name\<close> then writes the new nickname there.
\<close>

theorem missing_identity_nick_written:
  assumes "read_addr env (m_fig_info_addr h + hist_figure_offset env ''reputation'') \<noteq> 0"
    and "find_identity env (read_int env (read_addr env (m_fig_info_addr h + hist_figure_offset env ''reputation'')
           + hist_figure_offset env ''current_ident'')) = 0"
    and "hist_figure_offset env ''fake_name'' + dwarf_offset env ''nick_name'' \<noteq> 0"
  shows "\<not> fst (has_fake_identity env h) \<and>
         strings (write_nick_name env (snd (has_fake_identity env h)) n)
           (hist_figure_offset env ''fake_name'' + dwarf_offset env ''nick_name'') = n"
  using assms by (simp add: has_fake_identity_def Let_def write_nick_name_def foldl_write)

text \<open>
  C24: with the comparators of \<open>histfigure.h\<close>, every figure the
  constructor reads lists its notable kills by year and its other kills
  by falling count.
\<close>

theorem kill_lists_sorted:
  assumes "new_hist_figure env hid = Some h"
    and "sort_kill_count env = (\<lambda>a b. ki_count b < ki_count a)"
    and "sort_kill_date env = (\<lambda>a b. ki_year a < ki_year b)"
  shows "sorted_wrt (\<lambda>a b. ki_year a \<le> ki_year b) (m_notable_kills h) \<and>
         sorted_wrt (\<lambda>a b. ki_count b \<le> ki_count a) (m_other_kills h)"
proof -
  obtain h0 where h0: "m_other_kills h0 = []" "m_notable_kills h0 = []" "h = h0 \<or> read_kills env h0 = Some h"
    using new_hist_figure_start [OF assms(1)] by blast
  then show ?thesis using read_kills_sorted [OF _ assms(2,3), of h0 h] by auto
qed

subsection \<open>Sequences of calls\<close>

lemma notable_kills_fresh:
  "fst (notable_kills (h\<lparr>m_notable_kill_list := []\<rparr>)) =
     map (\<lambda>ki. ki_name ki @ '' the '' @ ki_creature ki @ '', d.'' @ int_str (ki_year ki)) (m_notable_kills h)"
  by (simp add: notable_kills_def kill_count_def Let_def)

lemma other_kills_fresh:
  "fst (other_kills (h\<lparr>m_other_kill_list := []\<rparr>)) =
     (if 0 < m_total_kills_other h then map (\<lambda>ki. int_str (ki_count ki) @ '' '' @ ki_creature ki) (m_other_kills h) else [])"
  by (simp add: other_kills_def kill_count_def Let_def)

lemma hist_step_same_kills: "same_kills (snd st) (snd (hist_step c st))"
  by (cases st; cases c) (simp_all add: same_kills_def notable_kills_def other_kills_def has_fake_identity_def Let_def)

lemma hist_step_cache_ok: "cache_ok (snd st) \<Longrightarrow> cache_ok (snd (hist_step c st))"
  by (cases st; cases c)
     (auto simp: cache_ok_def notable_kills_fresh other_kills_fresh notable_kills_def other_kills_def kill_count_def
        has_fake_identity_def Let_def)

lemma run_calls_inv:
  "cache_ok (snd st) \<Longrightarrow> cache_ok (snd (run_calls cs st)) \<and> same_kills (snd st) (snd (run_calls cs st))"
proof (induction cs arbitrary: st)
  case Nil
  then show ?case by (simp add: run_calls_def same_kills_def)
next
  case (Cons c cs)
  have "cache_ok (snd (hist_step c st))" using Cons.prems by (rule hist_step_cache_ok)
  then have "cache_ok (snd (run_calls cs (hist_step c st))) \<and>
             same_kills (snd (hist_step c st)) (snd (run_calls cs (hist_step c st)))" by (rule Cons.IH)
  then show ?case using hist_step_same_kills [of st c] by (simp add: run_calls_def same_kills_def)
qed

lemma cache_ok_queries:
  assumes "cache_ok h"
  shows "fst (notable_kills h) = fst (notable_kills (h\<lparr>m_notable_kill_list := []\<rparr>)) \<and>
         fst (other_kills h) = fst (other_kills (h\<lparr>m_other_kill_list := []\<rparr>))"
  using assms unfolding cache_ok_def notable_kills_fresh other_kills_fresh
  by (auto simp: notable_kills_def other_kills_def kill_count_def Let_def split: if_splits)

lemma same_kills_fresh:
  "same_kills h h' \<Longrightarrow>
     fst (notable_kills (h'\<lparr>m_notable_kill_list := []\<rparr>)) = fst (notable_kills (h\<lparr>m_notable_kill_list := []\<rparr>)) \<and>
     fst (other_kills (h'\<lparr>m_other_kill_list := []\<rparr>)) = fst (other_kills (h\<lparr>m_other_kill_list := []\<rparr>))"
  by (simp only: same_kills_def notable_kills_fresh other_kills_fresh)

lemma read_kills_caches:
  "read_kills env h = Some h' \<Longrightarrow> m_notable_kill_list h' = m_notable_kill_list h \<and> m_other_kill_list h' = m_other_kill_list h"
  by (auto simp: read_kills_def Let_def split: if_splits option.splits)

lemma new_hist_figure_caches:
  assumes "new_hist_figure env hid = Some h"
  shows "m_notable_kill_list h = [] \<and> m_other_kill_list h = []"
proof (cases "find_historical_figure env hid = 0")
  case True
  then show ?thesis using assms by (auto simp: new_hist_figure_def Let_def)
next
  case False
  then show ?thesis using assms read_kills_caches by (fastforce simp: new_hist_figure_def Let_def)
qed

text \<open>
  C20: whatever sequence of calls a client makes on a constructed figure
  (nickname writes, fake identity reads, kill list and count queries, in
  any order), the kill lists and counts it answers afterwards are those
  the fresh figure answers: the caches never go stale.
\<close>

theorem call_sequence_queries:
  assumes "new_hist_figure env hid = Some h" and "run_calls cs (env, h) = (env', h')"
  shows "fst (notable_kills h') = fst (notable_kills h) \<and> fst (other_kills h') = fst (other_kills h) \<and>
         total_kills h' = total_kills h \<and> kill_count h' notable = kill_count h notable"
proof -
  have e: "m_notable_kill_list h = [] \<and> m_other_kill_list h = []" using new_hist_figure_caches [OF assms(1)] .
  then have "cache_ok h" by (simp add: cache_ok_def)
  then have i: "cache_ok h' \<and> same_kills h h'" using run_calls_inv [of "(env, h)" cs] assms(2) by simp
  have "h\<lparr>m_notable_kill_list := []\<rparr> = h" "h\<lparr>m_other_kill_list := []\<rparr> = h" using e by simp_all
  then have "fst (notable_kills h') = fst (notable_kills h) \<and> fst (other_kills h') = fst (other_kills h)"
    using i cache_ok_queries [of h'] same_kills_fresh [of h h'] by simp
  then show ?thesis using i by (simp add: same_kills_def total_kills_def kill_count_def)
qed

subsection \<open>Witnesses\<close>

lemmas hist_eval = new_hist_figure_def read_kills_def example_env_def vec_at_def other_kill_info_def
  notable_kill_def qsort_by_def Let_def

lemma example_figure: "new_hist_figure example_env 7 = Some example_fig"
  by (simp add: hist_eval example_fig_def List.map_filter_def)

theorem group_kills_total_witness:
  "length [1, 0, 1] \<le> length [0, 1, 0 :: s16] \<and> length [1, 0, 1 :: s16] \<le> length [2, 3, 4 :: u32] \<and>
   group_kills [1, 0, 1] [0, 1, 0] [2, 3, 4] 0 [] = Some [(1, 6), (0, 3)] \<and>
   (\<exists>kills. group_kills [1, 0, 1] [0, 1, 0] [2, 3, 4] 0 [] = Some kills \<and> distinct (map fst kills) \<and>
           sum_list (map snd kills) = sum_list (map sint (take 3 [2, 3, 4 :: u32])))"
  using group_kills_total [of "[1, 0, 1]" "[0, 1, 0]" "[2, 3, 4]"] by (simp add: vec_at_def)

theorem new_hist_figure_total_kills_witness:
  "new_hist_figure example_env 7 = Some example_fig \<and> total_kills example_fig = 10 \<and>
   total_kills example_fig = int (length (m_notable_kills example_fig)) + sum_list (map ki_count (m_other_kills example_fig))"
  using new_hist_figure_total_kills [OF example_figure] example_figure
  by (simp add: total_kills_def example_fig_def)

theorem has_fake_identity_twice_witness:
  "read_addr example_env (m_fig_info_addr example_fig + hist_figure_offset example_env ''reputation'') \<noteq> 0 \<and>
   length (m_nick_addrs (snd (has_fake_identity example_env (snd (has_fake_identity example_env example_fig))))) = 3"
  using has_fake_identity_twice [of example_env example_fig]
  by (simp add: example_env_def example_fig_def)

theorem missing_identity_nick_written_witness:
  "\<not> fst (has_fake_identity example_env example_fig) \<and>
   strings (write_nick_name example_env (snd (has_fake_identity example_env example_fig)) ''Fake'') 0xC = ''Fake''"
  using missing_identity_nick_written [of example_env example_fig]
  by (simp add: example_env_def example_fig_def)

theorem kill_lists_sorted_witness:
  "new_hist_figure example_env 7 = Some example_fig \<and>
   sort_kill_count example_env = (\<lambda>a b. ki_count b < ki_count a) \<and>
   sort_kill_date example_env = (\<lambda>a b. ki_year a < ki_year b) \<and>
   sorted_wrt (\<lambda>a b. ki_count b \<le> ki_count a) (m_other_kills example_fig)"
proof -
  have c: "sort_kill_count example_env = (\<lambda>a b. ki_count b < ki_count a)"
    and d: "sort_kill_date example_env = (\<lambda>a b. ki_year a < ki_year b)"
    by (simp_all add: example_env_def)
  have "sorted_wrt (\<lambda>a b. ki_count b \<le> ki_count a) (m_other_kills example_fig)"
    using kill_lists_sorted [OF example_figure c d] by (rule conjunct2)
  then show ?thesis by (rule conjI [OF example_figure conjI [OF c conjI [OF d]]])
qed

theorem call_sequence_queries_witness:
  "\<exists>env' h'. run_calls [Call_notable_kills, Call_has_fake_identity, Call_write_nick_name ''Urist'', Call_other_kills]
       (example_env, example_fig) = (env', h') \<and>
     fst (notable_kills h') = fst (notable_kills example_fig) \<and> fst (other_kills h') = fst (other_kills example_fig) \<and>
     total_kills h' = total_kills example_fig"
proof -
  obtain env' h' where r: "run_calls [Call_notable_kills, Call_has_fake_identity, Call_write_nick_name ''Urist'', Call_other_kills]
       (example_env, example_fig) = (env', h')" by (cases "run_calls [Call_notable_kills, Call_has_fake_identity, Call_write_nick_name ''Urist'', Call_other_kills]
       (example_env, example_fig)") blast
  show ?thesis using r call_sequence_queries [OF example_figure r] by blast
qed

theorem undead_race_zero_merged_witness:
  "sint (0 :: s16) = 0 \<and> 0 < length [1 :: s16] \<and>
   group_kills [0] [1] [5] 0 [] = group_kills [0] [0] [5] 0 [] \<and>
   ki_creature (other_kill_info example_env (0, 5)) = ''goblin''"
proof -
  have h: "sint (0 :: s16) = 0" "0 < length [1 :: s16]" by simp_all
  have "[1 :: s16][0 := 0] = [0]" by simp
  then show ?thesis using h undead_race_zero_merged [OF h, of "[]" "[5]" "[]" example_env 5]
    by (simp add: example_env_def)
qed

end
