(* ===== verification/Spec2Isabelle.thy ===== *)
theory Spec2Isabelle
  imports Engine Preference HistFigure
begin

text \<open>
  \<^bold>\<open>A verification library for the rating, preference and historical-figure
  code of Dwarf Therapist.\<close>

  \<^bold>\<open>The program's parts.\<close>  The sources are three files.
  \<^item> \<open>src/inc/rolestats.h\<close> declares the role rating engine \<open>RoleStats\<close>.
    An engine is built from a sample of raw attribute values.  It holds
    two empirical distribution functions (\<open>ECDF\<close>, declared in
    \<open>ecdf.h\<close>): one over the whole sample, one over the values at least
    the median.  It chooses a transform strategy and rates any value on a
    scale of 0 to 100.  The method bodies (\<open>rolestats.cpp\<close>) and \<open>ecdf.h\<close>
    are not among the sources.
  \<^item> \<open>src/src/preference.cpp\<close> implements a dwarf's preferences: how
    their flags are derived from the game's race, plant and weapon objects,
    and how a dwarf's preference matches a preference a role asks for.
  \<^item> \<open>src/src/histfigure.cpp\<close> reads a historical figure from the game's
    memory: its kills, grouped by race or listed as notable kill events,
    its nickname addresses and a vampire's fake identity.
  The role engine and the preferences meet in the role ratings of the
  program (\<open>RoleAspect\<close>, \<open>Role\<close>), which are not among the sources; the
  historical figures feed the dwarf's kill lists.  The three parts share
  no state.

  \<^bold>\<open>Theories and what they model.\<close>
  \<^item> \<open>Prelude\<close>: the types \<open>sample\<close> (a \<open>QVector<double>\<close> as a list of
    reals), \<open>u32\<close> (\<open>VIRTADDR\<close>, a 32-bit word) and \<open>s16\<close> (\<open>qint16\<close>),
    the fact collections \<open>rating_defs\<close> and \<open>mono_intros\<close>, and lemmas on
    counting with \<open>filter\<close>.
  \<^item> \<open>ECDF\<close>: the record \<open>ecdf\<close> (the sorted data), \<open>ecdf_new\<close> (an error
    value on an empty sample), the binary search loop \<open>bsearch_it\<close> (a
    \<open>function\<close> with a termination measure, returning the index and the
    number of iterations it ran), its result \<open>bsearch\<close> and its cost
    \<open>T_bsearch\<close>, \<open>lower_bound\<close> and \<open>upper_bound\<close>, and the queries
    \<open>fminus\<close> and \<open>fplus\<close>.  It is modelled from section 4.1 of the
    specification.  The lemmas cover:
    \<^item> the binary searches equal the reference counts \<open>count_less\<close> and
      \<open>count_le\<close>;
    \<^item> a range shorter than \<open>2 ^ k\<close> needs at most \<open>k\<close> iterations;
    \<^item> the bounds, order and end values of the two queries.
  \<^item> \<open>RoleStats\<close>: the types translated from \<open>rolestats.h\<close>.  These are
    the enumeration \<open>transform_type\<close>, the struct \<open>transform_stats\<close>, and
    the engine's fields as the record \<open>role_stats\<close>.
    The methods are modelled from section 4.2 of the specification, in the
    header's order and with its names:
    \<^item> the helpers \<open>find_median\<close>, \<open>range_transform\<close>, \<open>load_list_stats\<close>
      and \<open>transform_valid\<close>;
    \<^item> the choice of transform: \<open>load_transformations\<close>, and
      \<open>configure_transformations\<close> (through \<open>try_transforms\<close> over the
      priority list \<open>candidates\<close>);
    \<^item> construction: \<open>calculate_factor_value\<close>, \<open>init_list\<close>, the
      constructor \<open>new_role_stats\<close> and \<open>set_list\<close>;
    \<^item> rating: \<open>get_transformations_rating\<close> and \<open>get_rating\<close>.
    Each method takes the engine record and returns it updated.  A
    constructor called on an empty sample returns the error value
    \<^const>\<open>None\<close>.
    Step 7 of \<open>init_list\<close> is \<open>configure_if_pending\<close>.  It configures the
    transform only for a request the caller left \<open>pending\<close>
    (\<open>TT_UNKNOWN\<close> or \<open>TT_ECDF_RANK_TRY\<close>); a pinned type is kept as given.
    The abstract contract of the strategy choice is \<open>selected\<close>, the first
    candidate that \<open>valid_for\<close> accepts.  \<open>tried\<close> gives the candidates
    probed up to that point.
    The invariant \<open>role_stats_wf\<close> holds for every constructed engine.
    It says:
    \<^item> the ECDFs are well formed;
    \<^item> the upper partition holds the values at least the median;
    \<^item> the derived scalars and the factor are as computed;
    \<^item> the transform is never \<open>TT_ECDF_RANK_TRY\<close>.
    \<open>transform_checked\<close> adds that the transform is unknown or valid.  It
    holds whenever the engine chose the transform itself.
  \<^item> \<open>Engine\<close>: the properties of constructed engines, and the
    lifecycle: \<open>set_lists\<close>, a sequence of \<open>set_list\<close> calls.  Since
    \<open>set_list\<close> rebuilds the engine from its new sample alone
    (\<open>set_list_new\<close>), every engine the program can hold is a constructed
    one, and the properties of constructed engines cover them all.
  \<^item> \<open>Preference\<close>: translated line by line from \<open>preference.cpp\<close>.  It
    holds:
    \<^item> the record \<open>preference\<close>, the constructors, the copy
      constructor \<open>copy_preference\<close>, the destructor
      \<open>destroy_preference\<close> and \<open>add_flag\<close>;
    \<^item> the \<open>RoleAspect\<close> objects as an explicit store \<open>pref_store\<close>:
      addresses with their \<open>QObject\<close> parent and an allocation counter.
      \<open>alloc_aspect\<close> is \<open>new RoleAspect(parent)\<close>;
      \<open>construct_preference\<close> runs a constructor (\<open>pref_ctor\<close> names
      the overload) and allocates its aspect;
    \<^item> \<open>matches\<close>, split into the flag loops \<open>special_flag_scan\<close> and
      \<open>material_flag_scan\<close>, then \<open>match_flags\<close> and \<open>weapon_check\<close>;
    \<^item> the three \<open>set_pref_flags\<close> overloads.
    The enumeration constants of headers outside the sources are the
    fields of \<open>pref_codes\<close>.  Every theorem holds for every value of those
    fields, unless it names a hypothesis on them.
  \<^item> \<open>HistFigure\<close>: the figure as the record \<open>hist_figure\<close>.  The game
    process is the record \<open>df_env\<close>: memory reads, lookups, offsets, and
    a store of strings that \<open>write_nick_name\<close> updates.  The definitions
    are:
    \<^item> \<open>group_kills\<close>, the hash of kills by race.  An out-of-range
      \<open>QVector::at\<close> is the error value \<^const>\<open>None\<close>;
    \<^item> \<open>read_kills\<close> and the constructor \<open>new_hist_figure\<close>;
    \<^item> \<open>total_kills\<close> and \<open>kill_count\<close>;
    \<^item> the cached lists \<open>notable_kills\<close> and \<open>other_kills\<close>.  Each returns
      the list and the updated figure;
    \<^item> \<open>write_nick_name\<close> and \<open>has_fake_identity\<close>;
    \<^item> the client's calls as the datatype \<open>hist_call\<close>, run one at a
      time by \<open>hist_step\<close> and in sequence by \<open>run_calls\<close>;
    \<^item> the decimal printing of \<open>QString::arg\<close>, \<open>nat_str\<close> and
      \<open>int_str\<close>.
    Addresses are 32-bit words, so address arithmetic wraps as in the code.

  \<^bold>\<open>What the lemmas show.\<close>
  \<^item> For the rating engine:
    \<^item> the rating is monotone for every constructed engine;
    \<^item> \<open>configure_transformations\<close> refines the abstract selection;
    \<^item> a transform the engine chose never divides by zero;
    \<^item> a pinned min-max transform on equal values does divide by zero (a
      finding);
    \<^item> \<open>set_list\<close> rebuilds the engine from scratch, so a sequence of calls
      depends only on its last sample;
    \<^item> the constructor and \<open>set_list\<close> fail exactly on an empty sample;
    \<^item> the factor line is continuous at the median;
    \<^item> a degenerate sample rates every value 50;
    \<^item> every query is answered by a search of a logarithmic number of
      iterations, the same run the query takes its count from;
    \<^item> under rank on the whole sample no value rates below 50 (a finding).
  \<^item> For the preferences:
    \<^item> \<open>matches\<close> returns 0 or 1;
    \<^item> it refines a declarative decision rule, \<open>match_spec\<close>; its
      result is also proved branch by branch;
    \<^item> the dwarf can only lower it;
    \<^item> a weapon match implies the dwarf can wield the weapon;
    \<^item> the race and plant flag setters add exactly the intended flags,
      without duplicates;
    \<^item> constructed preferences point to distinct aspects and a copy
      shares its original's; an aspect allocated without a parent is never
      freed (a finding).
  \<^item> For the historical figures:
    \<^item> grouping the kills keeps their total and fails exactly when a
      vector is short; the constructor fails exactly then;
    \<^item> undead kills of race 0 are merged with the living ones (a finding);
    \<^item> the total of a constructed figure is the number of its notable
      kills plus the counts of its other kills;
    \<^item> the kill lists are cached, and sorted by the comparators of
      \<open>histfigure.h\<close>;
    \<^item> the effect of a nickname write, as a frame property;
    \<^item> after any sequence of calls (\<open>hist_call\<close>, \<open>run_calls\<close>) the
      figure answers the kill lists and counts of the fresh figure.
  The root theory proves the whole pipeline for weapon preferences: flag
  setting followed by matching.

  \<^bold>\<open>Choices where the source leaves the behaviour open.\<close>
  \<^item> Values below the median are rated by the factor line only for the
    upper strategies.  This follows the header's comments on the
    enumeration (rolestats.h lines 39-44); the specification applies the
    line to every strategy.
  \<^item> A sample whose values are all equal validates no strategy.  The
    engine then stays \<open>TT_UNKNOWN\<close> and rates every value 50.
  \<^item> The priority order of the candidate strategies is the order of the
    enumeration, upper variants first.
  \<^item> Doubles are reals, so rounding is not modelled.  Division by zero is
    0 in HOL, where the C++ code yields an infinity or NaN.  The theorems
    on \<open>divisions_defined\<close> bound where the model's value is such a
    placeholder: never for a transform the engine chose.  A pinned min-max
    or multi transform is never checked: its divisions are undefined on a
    sample of equal values (proved), and also whenever the median equals
    the sample's minimum or maximum (for example min-max on the upper
    partition of 1, 2, 2, or on the whole of 1, 1, 2).  There the model
    rates with the placeholder, and the monotonicity of the rating holds
    of the placeholder rather than of the program's NaN.
  \<^item> The upper partition holds the values at least the median, and
    \<open>m_ecdf_median\<close> is the smoothed rank at the median, as the
    specification says (4.2 steps 3 and 6).  The comments of
    \<open>rolestats.h\<close> (lines 66-67) say values over the median and the median
    of the smoothed ranks; both are reported as divergences.
  \<^item> \<open>calculate_factor_value\<close> takes an index of the upper partition in
    the header (line 84); the model anchors the factor at the median, as
    the specification's step 9 says.
  \<^item> Qt's case-insensitive comparison is modelled on ASCII letters.
  \<^item> \<open>qSort\<close> with a comparator is an insertion sort by it.
  No definition needs fuel.  The binary search loop terminates by the
  measure \<open>hi - lo\<close>.  \<open>nat_str\<close> recurses on
  \<open>n div 10\<close>.  Every other recursion is structural.

  \<^bold>\<open>Not modelled.\<close>
  \<^item> The \<open>RoleAspect\<close> object beyond its allocation and parent: its
    code is not among the sources.
  \<^item> The logger calls: no state of the model depends on them.
  \<^item> The \<open>DFInstance\<close> memory protocol beyond the reads these files make.
  \<^item> The string helpers and comparators declared in headers outside the
    sources.  They are functions of the environment.
  \<^item> The role aspects that combine ratings with preferences: their code is
    not among the sources.
\<close>

section \<open>The weapon preference pipeline\<close>

text \<open>
  C9: a dwarf's preference for a melee weapon, flagged by
  \<open>set_pref_flags\<close> from the weapon's subtype, matches a role's preference
  for weapons (special flag \<open>ITEMS_WEAPON\<close>) exactly when the dwarf can
  wield that weapon: the game knows the weapon and the dwarf's body is at
  least its multi-grasp size.
\<close>

theorem weapon_preference_pipeline:
  assumes "\<not> is_ranged w"
  shows "matches c (set_pref_flags_weapon c (Some w) (new_preference_named c cat name par a))
            ((new_preference_named c cat rname rpar ra)\<lparr>m_special_flags := [c_ITEMS_WEAPON c]\<rparr>) (Some d)
         = bool_int (\<exists>w'. find_weapon_def d name = Some w' \<and> multi_grasp w' \<le> body_size d)"
  using assms
  by (auto simp: matches_def match_flags_def weapon_check_def set_pref_flags_weapon_def
      new_preference_named_def add_flag_def bool_int_def Let_def split: option.split)

theorem weapon_preference_pipeline_witness:
  "\<not> is_ranged \<lparr>is_ranged = False, multi_grasp = 2\<rparr> \<and>
   matches example_codes
     (set_pref_flags_weapon example_codes (Some \<lparr>is_ranged = False, multi_grasp = 2\<rparr>)
        (new_preference_named example_codes 5 ''axe'' None 0))
     ((new_preference_named example_codes 5 ''weapon'' None 0)\<lparr>m_special_flags := [c_ITEMS_WEAPON example_codes]\<rparr>)
     (Some \<lparr>body_size = 3, find_weapon_def = (\<lambda>n. if n = ''axe'' then Some \<lparr>is_ranged = False, multi_grasp = 2\<rparr> else None)\<rparr>)
   = 1"
  using weapon_preference_pipeline [of "\<lparr>is_ranged = False, multi_grasp = 2\<rparr>" example_codes 5 "''axe''"
      "None" 0 "''weapon''" "None" 0 "\<lparr>body_size = 3, find_weapon_def = (\<lambda>n. if n = ''axe'' then Some \<lparr>is_ranged = False, multi_grasp = 2\<rparr> else None)\<rparr>"]
  by (simp add: bool_int_def)

end
